theory Spec2Isabelle
  imports Complex_Main
begin

section \<open>Basic types shared by the engine and the in-game mode\<close>

text \<open>
  A C++ \<open>int\<close> has 32 bits. Its values are the integers from \<open>INT_MIN\<close> to \<open>INT_MAX\<close>; they
  are modelled as \<open>int\<close>, and every addition and subtraction that the code at hand makes on
  them is passed through \<open>int32\<close>, which writes out the two's complement wrap-around of the
  compiled code (signed overflow is undefined in C++; the wrapped value is what the
  machine's addition leaves): \<open>INT_MAX + 1\<close> is \<open>INT_MIN\<close>.
\<close>

definition INT_MIN :: int where
  "INT_MIN = - 2147483648"

definition INT_MAX :: int where
  "INT_MAX = 2147483647"

definition int32 :: "int \<Rightarrow> int" where
  "int32 v = (v + 2147483648) mod 4294967296 - 2147483648"

text \<open>
  \<open>base::Vector\<close> is a point with \<open>int\<close> coordinates in tile units; \<open>WorldPosition\<close> is
  assigned from a \<open>base::Vector\<close> in the constructor of \<open>IngameMode\<close> and the camera position
  is added to the loop counters to form map indices. The sums the code forms from
  coordinates (\<open>x + mpCameraPos->x\<close>, \<open>right() + 1\<close>, the difference of two vectors) wrap
  around in the model as they do in the code, and a property that needs a sum to be exact
  carries the bound as a hypothesis.
\<close>

record Vector =
  vec_x :: int
  vec_y :: int

record Size =
  width :: int
  height :: int

text \<open>\<open>base::Rect<int>\<close>, also used as the \<open>BoundingBox\<close> component.\<close>

record Rect =
  topLeft :: Vector
  rectSize :: Size

text \<open>\<open>base::Color{r, g, b, a}\<close>.\<close>

datatype Color = Color nat nat nat nat

text \<open>\<open>engine::TimeDelta\<close> is a \<open>double\<close>; the code under study only passes it on.\<close>

type_synonym TimeDelta = real

text \<open>The difference of two vectors (\<open>operator-\<close> of \<open>base::Point\<close>), component by
  component, in \<open>int\<close> arithmetic.\<close>

definition vector_minus :: "Vector \<Rightarrow> Vector \<Rightarrow> Vector" where
  "vector_minus a b =
     \<lparr>vec_x = int32 (vec_x a - vec_x b), vec_y = int32 (vec_y a - vec_y b)\<rparr>"

section \<open>The map\<close>

datatype SolidEdge = EdgeTop | EdgeRight | EdgeBottom | EdgeLeft

type_synonym CollisionData = "SolidEdge \<Rightarrow> bool"

definition isSolidOn :: "CollisionData \<Rightarrow> SolidEdge \<Rightarrow> bool" where
  "isSolidOn cd edge = cd edge"

record TileAttributes =
  isClimbable :: bool
  isLadder :: bool
  isFlammable :: bool

text \<open>
  The class \<open>data::map::Map\<close> is declared outside the files at hand. Its four methods used
  here are the fields of the record: \<open>width()\<close>, \<open>height()\<close>, \<open>collisionData(col, row)\<close> and
  \<open>attributes(col, row)\<close>. The two lookups are total functions here; every lookup the code
  makes is recorded in the trace (\<open>CollisionDataQuery\<close>, \<open>AttributesQuery\<close>), so that a
  lookup outside the grid is visible.
\<close>

record Map =
  mapWidth :: int
  mapHeight :: int
  collisionData :: "int \<Rightarrow> int \<Rightarrow> CollisionData"
  attributes :: "int \<Rightarrow> int \<Rightarrow> TileAttributes"

definition inGrid :: "Map \<Rightarrow> int \<Rightarrow> int \<Rightarrow> bool" where
  "inGrid m col row = (0 \<le> col \<and> col < mapWidth m \<and> 0 \<le> row \<and> row < mapHeight m)"

text \<open>
  The return type of \<open>width()\<close> and \<open>height()\<close> is part of the missing declaration, and it
  decides what the comparisons \<open>col >= mpMap->width()\<close> and \<open>row >= mpMap->height()\<close> of the
  debugging system mean, \<open>col\<close> and \<open>row\<close> being \<open>int\<close>. With a signed type (\<open>int\<close>, a type
  that is promoted to \<open>int\<close>, or a wider signed type) the comparison is the signed one, on
  the values as they are. With an unsigned type of \<open>bits\<close> bits
  that is at least as wide as \<open>int\<close> (\<open>unsigned\<close>, \<open>std::size_t\<close>), \<open>col\<close> is first converted
  to that type, that is reduced modulo \<open>2 ^ bits\<close>, so that a negative \<open>col\<close> becomes a
  large number. The return type is a parameter of the model.
\<close>

datatype SizeType = ReturnsSigned | ReturnsUnsigned nat

fun notBelowSize :: "SizeType \<Rightarrow> int \<Rightarrow> int \<Rightarrow> bool" where
  "notBelowSize ReturnsSigned i sz = (i \<ge> sz)"
| "notBelowSize (ReturnsUnsigned bits) i sz = (i mod 2 ^ bits \<ge> sz)"

section \<open>Entities and components\<close>

text \<open>
  Modelled from the spec: the enumerators of \<open>player::PlayerState\<close> other than \<open>Dead\<close>
  and of \<open>TriggerType\<close> other than \<open>LevelExit\<close> (the enums are declared outside the files
  at hand; the code only compares with \<open>Dead\<close> and \<open>LevelExit\<close>).
\<close>

datatype PlayerState = Standing | Walking | Jumping | Attacking | Dead

datatype TriggerType = LevelExit | OtherTrigger

record PlayerControlled =
  mState :: PlayerState

record Trigger =
  mType :: TriggerType

record Physical =
  mVelocity :: "real \<times> real"

record MapGeometryLink =
  mLinkedGeometrySection :: Rect

text \<open>
  An entity of the entityx store: an identifier and, for each kind of component, at most
  one component. \<open>None\<close> (or \<open>False\<close> for the two tag components, of which the code only
  asks \<open>has_component\<close>) says that the entity does not have the component.
\<close>

record Entity =
  entityId :: nat
  cWorldPosition :: "Vector option"
  cBoundingBox :: "Rect option"
  cPhysical :: "Physical option"
  cPlayerControlled :: "PlayerControlled option"
  cTrigger :: "Trigger option"
  cMapGeometryLink :: "MapGeometryLink option"
  cPlayerDamaging :: bool
  cSolidBody :: bool

section \<open>The trace of calls to the collaborators\<close>

datatype SystemId =
  Elevator | PlayerMovement | Attack | PlayerInteraction | SecurityCamera | Physics
  | PlayerDamage | DamageInfliction | Animation | MapScroll | Rendering | Debugging

record PlayerInputState =
  mMovingUp :: bool
  mMovingDown :: bool
  mMovingLeft :: bool
  mMovingRight :: bool
  mJumping :: bool
  mShooting :: bool

datatype Event =
  FadeOutScreen
  | FadeInScreen
  | PlayMusic string
  | ShowLoadingScreen string
  | ShowDebugText Vector Vector "real \<times> real"
  | SetInputState SystemId PlayerInputState
  | SystemUpdate SystemId TimeDelta
  | HudUpdateAndRender TimeDelta
  | BindRenderTarget
  | UnbindRenderTarget
  | RenderTargetRender
  | CollisionDataQuery int int
  | AttributesQuery int int
  | DrawLine int int int int Color
  | DrawRectangle Rect Color

section \<open>Declarations the two files use but do not contain\<close>

text \<open>
  Constants of \<open>data::GameTraits\<close>, the unit conversions of \<open>data/unit_conversions.hpp\<close>,
  \<open>base::makeRect\<close>, \<open>engine::toWorldSpace\<close>, the edge accessors of \<open>base::Rect\<close> and the
  return type of \<open>Map::width()\<close> and \<open>Map::height()\<close> are declared outside the files at
  hand. They are parameters of the model.
\<close>

record Externals =
  mapSizeType :: SizeType
  mapViewPortWidthTiles :: int
  mapViewPortHeightTiles :: int
  tilesToPixels :: "int \<Rightarrow> int"
  tileVectorToPixelVector :: "Vector \<Rightarrow> Vector"
  tileExtentsToPixelExtents :: "Size \<Rightarrow> Size"
  makeRect :: "Vector \<Rightarrow> Vector \<Rightarrow> Rect"
  toWorldSpace :: "Rect \<Rightarrow> Vector \<Rightarrow> Rect"
  rectLeft :: "Rect \<Rightarrow> int"
  rectRight :: "Rect \<Rightarrow> int"
  rectBottom :: "Rect \<Rightarrow> int"

section \<open>The debugging system\<close>

record DebuggingSystem =
  mShowBoundingBoxes :: bool
  mShowWorldCollisionData :: bool
  mShowGrid :: bool

definition toggleBoundingBoxDisplay :: "DebuggingSystem \<Rightarrow> DebuggingSystem" where
  "toggleBoundingBoxDisplay d = d\<lparr>mShowBoundingBoxes := \<not> mShowBoundingBoxes d\<rparr>"

definition toggleWorldCollisionDataDisplay :: "DebuggingSystem \<Rightarrow> DebuggingSystem" where
  "toggleWorldCollisionDataDisplay d = d\<lparr>mShowWorldCollisionData := \<not> mShowWorldCollisionData d\<rparr>"

definition toggleGridDisplay :: "DebuggingSystem \<Rightarrow> DebuggingSystem" where
  "toggleGridDisplay d = d\<lparr>mShowGrid := \<not> mShowGrid d\<rparr>"

definition colorForEntity :: "Entity \<Rightarrow> Color" where
  "colorForEntity entity =
     (let isPlayerDamaging = cPlayerDamaging entity;
          isSolidBody = cSolidBody entity
      in if isPlayerDamaging then Color 255 0 0 255
         else if isSolidBody then Color 255 255 0 255
         else Color 0 255 0 255)"

text \<open>The inner loop over \<open>visualizationInfos\<close>: one line for each solid edge.\<close>

definition solidEdgeLines :: "CollisionData \<Rightarrow> int \<Rightarrow> int \<Rightarrow> int \<Rightarrow> int \<Rightarrow> Event list" where
  "solidEdgeLines cd l t r b =
     concat (map (\<lambda>(edge, x1, y1, x2, y2).
                if isSolidOn cd edge then [DrawLine x1 y1 x2 y2 (Color 255 255 0 255)] else [])
       [(EdgeTop, l, t, r, t),
        (EdgeRight, r, t, r, b),
        (EdgeBottom, l, b, r, b),
        (EdgeLeft, l, t, l, b)])"

text \<open>The body of the two nested loops of the world-collision pass, for the tile \<open>(x, y)\<close>
  of the view port.\<close>

definition collisionTile :: "Externals \<Rightarrow> Vector \<Rightarrow> Map \<Rightarrow> int \<Rightarrow> int \<Rightarrow> Event list" where
  "collisionTile X cameraPos m x y =
     (let col = int32 (x + vec_x cameraPos);
          row = int32 (y + vec_y cameraPos)
      in if notBelowSize (mapSizeType X) col (mapWidth m)
            \<or> notBelowSize (mapSizeType X) row (mapHeight m) then []
         else
           (let cd = collisionData m col row;
                tl = tileVectorToPixelVector X \<lparr>vec_x = x, vec_y = y\<rparr>;
                br = tileVectorToPixelVector X \<lparr>vec_x = int32 (x + 1), vec_y = int32 (y + 1)\<rparr>;
                tileBox = makeRect X tl br
            in [CollisionDataQuery col row]
               @ solidEdgeLines cd (vec_x tl) (vec_y tl) (vec_x br) (vec_y br)
               @ [AttributesQuery col row, AttributesQuery col row, AttributesQuery col row]
               @ (if isClimbable (attributes m col row)
                  then [DrawRectangle tileBox (Color 255 100 255 220)] else [])
               @ (if isLadder (attributes m col row)
                  then [DrawRectangle tileBox (Color 0 100 255 220)] else [])
               @ (if isFlammable (attributes m col row)
                  then [DrawRectangle tileBox (Color 255 127 0 220)] else [])))"

definition worldCollisionPass :: "Externals \<Rightarrow> Vector \<Rightarrow> Map \<Rightarrow> Event list" where
  "worldCollisionPass X cameraPos m =
     concat (map (\<lambda>y. concat (map (\<lambda>x. collisionTile X cameraPos m x y)
                                  [0 .. mapViewPortWidthTiles X - 1]))
                 [0 .. mapViewPortHeightTiles X - 1])"

text \<open>The two \<open>es.each\<close> loops of the bounding-box pass; an entity is visited by a loop
  when it has both components the loop names.\<close>

definition entityBoxInPixels :: "Externals \<Rightarrow> Vector \<Rightarrow> Vector \<Rightarrow> Rect \<Rightarrow> Rect" where
  "entityBoxInPixels X cameraPos pos bbox =
     (let worldToScreenPx = tileVectorToPixelVector X cameraPos;
          worldSpaceBox = toWorldSpace X bbox pos
      in \<lparr>topLeft = vector_minus (tileVectorToPixelVector X (topLeft worldSpaceBox)) worldToScreenPx,
          rectSize = tileExtentsToPixelExtents X (rectSize worldSpaceBox)\<rparr>)"

definition linkBoxInPixels :: "Externals \<Rightarrow> Vector \<Rightarrow> MapGeometryLink \<Rightarrow> Rect" where
  "linkBoxInPixels X cameraPos link =
     (let worldToScreenPx = tileVectorToPixelVector X cameraPos
      in \<lparr>topLeft = vector_minus
                      (tileVectorToPixelVector X (topLeft (mLinkedGeometrySection link)))
                      worldToScreenPx,
          rectSize = tileExtentsToPixelExtents X (rectSize (mLinkedGeometrySection link))\<rparr>)"

definition entityBoxes :: "Externals \<Rightarrow> Vector \<Rightarrow> Entity list \<Rightarrow> Event list" where
  "entityBoxes X cameraPos es =
     concat (map (\<lambda>entity.
                case (cWorldPosition entity, cBoundingBox entity) of
                  (Some pos, Some bbox) \<Rightarrow>
                    [DrawRectangle (entityBoxInPixels X cameraPos pos bbox) (colorForEntity entity)]
                | _ \<Rightarrow> [])
             es)"

definition linkBoxes :: "Externals \<Rightarrow> Vector \<Rightarrow> Entity list \<Rightarrow> Event list" where
  "linkBoxes X cameraPos es =
     concat (map (\<lambda>entity.
                case (cWorldPosition entity, cMapGeometryLink entity) of
                  (Some pos, Some link) \<Rightarrow>
                    [DrawRectangle (linkBoxInPixels X cameraPos link) (Color 0 255 255 190)]
                | _ \<Rightarrow> [])
             es)"

definition gridPass :: "Externals \<Rightarrow> Event list" where
  "gridPass X =
     (let drawColor = Color 255 255 255 190;
          maxX = tilesToPixels X (mapViewPortWidthTiles X);
          maxY = tilesToPixels X (mapViewPortHeightTiles X)
      in map (\<lambda>y. DrawLine 0 (tilesToPixels X y) maxX (tilesToPixels X y) drawColor)
             [0 .. mapViewPortHeightTiles X - 1]
         @ map (\<lambda>x. DrawLine (tilesToPixels X x) 0 (tilesToPixels X x) maxY drawColor)
               [0 .. mapViewPortWidthTiles X - 1])"

text \<open>\<open>DebuggingSystem::update\<close>: the calls it makes on the map and on the renderer, in
  order. It changes neither its own flags nor the entities.\<close>

definition DebuggingSystem_update ::
  "Externals \<Rightarrow> DebuggingSystem \<Rightarrow> Vector \<Rightarrow> Map \<Rightarrow> Entity list \<Rightarrow> Event list" where
  "DebuggingSystem_update X d cameraPos m es =
     (if mShowWorldCollisionData d then worldCollisionPass X cameraPos m else [])
     @ (if mShowBoundingBoxes d then entityBoxes X cameraPos es @ linkBoxes X cameraPos es else [])
     @ (if mShowGrid d then gridPass X else [])"

section \<open>The in-game mode: state\<close>

text \<open>\<open>data::PlayerModel\<close>; of its members the code at hand reads \<open>mHealth\<close> only.\<close>

record PlayerModel =
  mHealth :: int

text \<open>
  What the systems reach through the pointers they are given in \<open>loadLevel\<close>: the entity
  manager, the map of \<open>mLevelData\<close>, the player model and the scroll offset. \<open>mSystemState\<close>
  stands for the members of the systems whose classes are outside the files at hand (among
  them the input state that \<open>setInputState\<close> stores and the player handle each system was
  constructed with).
\<close>

record 'x World =
  entities :: "Entity list"
  mMap :: Map
  mPlayerModel :: PlayerModel
  mScrollOffset :: Vector
  mSystemState :: 'x

text \<open>
  The collaborators of \<open>IngameMode\<close> whose code is outside the files at hand, as parameters:
  the \<open>update\<close> of each system but the debugging system (it reads the input state and may
  change the world), \<open>setInputState\<close> of the attack and elevator systems,
  \<open>HudRenderer::updateAndRender\<close> (it is given the player model), and
  \<open>EntityFactory::createEntitiesForLevel\<close>, which adds entities to the entity manager and
  returns the handle of the player entity. \<open>'a\<close> is the type of the actor list.

  The systems cannot reach \<open>mLevelFinished\<close>, \<open>mShowDebugText\<close>, the level-start copies,
  the initial actor list or the flags of the debugging system: no pointer to them is handed
  out in \<open>loadLevel\<close>. The player movement system is given a pointer to \<open>mPlayerInputs\<close>;
  the specification has these flags set on key-down and cleared on key-up and by nothing
  else, so the systems read the input state and do not write it.
\<close>

record ('x, 'a) Collaborators =
  externals :: Externals
  systemUpdate :: "SystemId \<Rightarrow> TimeDelta \<Rightarrow> PlayerInputState \<Rightarrow> 'x World \<Rightarrow> 'x World"
  setInputState :: "SystemId \<Rightarrow> PlayerInputState \<Rightarrow> 'x \<Rightarrow> 'x"
  hudUpdateAndRender :: "TimeDelta \<Rightarrow> PlayerModel \<Rightarrow> 'x \<Rightarrow> PlayerModel \<times> 'x"
  createEntitiesForLevel :: "'a \<Rightarrow> Entity list \<Rightarrow> Entity list \<times> nat"

text \<open>
  The members of \<open>IngameMode\<close>. \<open>mPlayerEntity\<close> is a handle: the identifier of an entity
  of the store. \<open>mInitialActors\<close> is \<open>mLevelData.mInitialActors\<close>. \<open>mDebuggingSystem\<close> is
  the debugging system registered in \<open>mEntities.systems\<close>. \<open>mTrace\<close> is not a member: it
  records, in order, the calls made on the service provider, the renderer, the map and the
  system manager.
\<close>

record ('x, 'a) IngameMode =
  mWorld :: "'x World"
  mPlayerEntity :: nat
  mPlayerInputs :: PlayerInputState
  mInitialActors :: 'a
  mMapAtLevelStart :: Map
  mPlayerModelAtLevelStart :: PlayerModel
  mLevelFinished :: bool
  mShowDebugText :: bool
  mDebuggingSystem :: DebuggingSystem
  mTrace :: "Event list"

text \<open>
  \<open>InvalidComponentHandle\<close>: \<open>component<C>().get()\<close> or \<open>component<C>()->\<close> on an entity
  that is not in the store or has no component \<open>C\<close> (entityx asserts). \<open>RestartDepthExceeded\<close>:
  the recursion \<open>updateAndRender\<close> \<open>\<rightarrow>\<close> \<open>restartLevel\<close> \<open>\<rightarrow>\<close> \<open>updateAndRender\<close> went deeper than
  the bound the model is run with. \<open>AssertionFailed\<close>: an \<open>assert\<close> of \<open>levelFileName\<close> or
  \<open>loadingScreenFileName\<close> does not hold.
\<close>

datatype error = InvalidComponentHandle | RestartDepthExceeded | AssertionFailed

definition playerEntity :: "('x, 'a) IngameMode \<Rightarrow> Entity option" where
  "playerEntity s = find (\<lambda>e. entityId e = mPlayerEntity s) (entities (mWorld s))"

definition logEvents :: "Event list \<Rightarrow> ('x, 'a) IngameMode \<Rightarrow> ('x, 'a) IngameMode" where
  "logEvents evs s = s\<lparr>mTrace := mTrace s @ evs\<rparr>"

section \<open>The in-game mode: input\<close>

datatype SDL_EventType = SDL_KEYDOWN | SDL_KEYUP | SDL_OTHEREVENT

datatype SDL_Keycode =
  SDLK_UP | SDLK_DOWN | SDLK_LEFT | SDLK_RIGHT | SDLK_LCTRL | SDLK_RCTRL | SDLK_LALT
  | SDLK_RALT | SDLK_b | SDLK_c | SDLK_d | SDLK_OTHERKEY

record SDL_Event =
  eventType :: SDL_EventType
  keysym :: SDL_Keycode

definition setPlayerInput :: "SDL_Keycode \<Rightarrow> bool \<Rightarrow> PlayerInputState \<Rightarrow> PlayerInputState" where
  "setPlayerInput key keyPressed inputs =
     (case key of
        SDLK_UP \<Rightarrow> inputs\<lparr>mMovingUp := keyPressed\<rparr>
      | SDLK_DOWN \<Rightarrow> inputs\<lparr>mMovingDown := keyPressed\<rparr>
      | SDLK_LEFT \<Rightarrow> inputs\<lparr>mMovingLeft := keyPressed\<rparr>
      | SDLK_RIGHT \<Rightarrow> inputs\<lparr>mMovingRight := keyPressed\<rparr>
      | SDLK_LCTRL \<Rightarrow> inputs\<lparr>mJumping := keyPressed\<rparr>
      | SDLK_RCTRL \<Rightarrow> inputs\<lparr>mJumping := keyPressed\<rparr>
      | SDLK_LALT \<Rightarrow> inputs\<lparr>mShooting := keyPressed\<rparr>
      | SDLK_RALT \<Rightarrow> inputs\<lparr>mShooting := keyPressed\<rparr>
      | _ \<Rightarrow> inputs)"

definition handleEvent :: "SDL_Event \<Rightarrow> ('x, 'a) IngameMode \<Rightarrow> ('x, 'a) IngameMode" where
  "handleEvent event s =
     (if eventType event \<noteq> SDL_KEYDOWN \<and> eventType event \<noteq> SDL_KEYUP then s
      else
        (let keyPressed = (eventType event = SDL_KEYDOWN);
             s1 = s\<lparr>mPlayerInputs := setPlayerInput (keysym event) keyPressed (mPlayerInputs s)\<rparr>
         in if keyPressed then s1
            else
              (case keysym event of
                 SDLK_b \<Rightarrow> s1\<lparr>mDebuggingSystem := toggleBoundingBoxDisplay (mDebuggingSystem s1)\<rparr>
               | SDLK_c \<Rightarrow>
                   s1\<lparr>mDebuggingSystem := toggleWorldCollisionDataDisplay (mDebuggingSystem s1)\<rparr>
               | SDLK_d \<Rightarrow> s1\<lparr>mShowDebugText := \<not> mShowDebugText s1\<rparr>
               | _ \<Rightarrow> s1)))"

section \<open>The in-game mode: one frame\<close>

definition setSystemInput ::
  "('x, 'a) Collaborators \<Rightarrow> SystemId \<Rightarrow> ('x, 'a) IngameMode \<Rightarrow> ('x, 'a) IngameMode" where
  "setSystemInput C sys s =
     logEvents [SetInputState sys (mPlayerInputs s)]
       (s\<lparr>mWorld := (mWorld s)
            \<lparr>mSystemState := setInputState C sys (mPlayerInputs s) (mSystemState (mWorld s))\<rparr>\<rparr>)"

definition updateSystem ::
  "('x, 'a) Collaborators \<Rightarrow> SystemId \<Rightarrow> TimeDelta \<Rightarrow> ('x, 'a) IngameMode
   \<Rightarrow> ('x, 'a) IngameMode" where
  "updateSystem C sys dt s =
     logEvents [SystemUpdate sys dt]
       (s\<lparr>mWorld := systemUpdate C sys dt (mPlayerInputs s) (mWorld s)\<rparr>)"

text \<open>\<open>mEntities.systems.update<DebuggingSystem>(dt)\<close>, with the code of
  \<open>DebuggingSystem::update\<close>: the camera position is \<open>mScrollOffset\<close>, the map is the map of
  \<open>mLevelData\<close>.\<close>

definition updateDebuggingSystem ::
  "('x, 'a) Collaborators \<Rightarrow> TimeDelta \<Rightarrow> ('x, 'a) IngameMode \<Rightarrow> ('x, 'a) IngameMode" where
  "updateDebuggingSystem C dt s =
     logEvents
       (SystemUpdate Debugging dt
        # DebuggingSystem_update (externals C) (mDebuggingSystem s) (mScrollOffset (mWorld s))
            (mMap (mWorld s)) (entities (mWorld s)))
       s"

definition updateHud ::
  "('x, 'a) Collaborators \<Rightarrow> TimeDelta \<Rightarrow> ('x, 'a) IngameMode \<Rightarrow> ('x, 'a) IngameMode" where
  "updateHud C dt s =
     (let (model, sys) =
            hudUpdateAndRender C dt (mPlayerModel (mWorld s)) (mSystemState (mWorld s))
      in logEvents [HudUpdateAndRender dt]
           (s\<lparr>mWorld := (mWorld s)\<lparr>mPlayerModel := model, mSystemState := sys\<rparr>\<rparr>))"

text \<open>The part "Updating" of \<open>updateAndRender\<close>.\<close>

definition updateSystems ::
  "('x, 'a) Collaborators \<Rightarrow> TimeDelta \<Rightarrow> ('x, 'a) IngameMode \<Rightarrow> ('x, 'a) IngameMode" where
  "updateSystems C dt s =
     (let s1 = setSystemInput C Attack s;
          s2 = setSystemInput C Elevator s1;
          s3 = updateSystem C Elevator dt s2;
          s4 = updateSystem C PlayerMovement dt s3;
          s5 = updateSystem C Attack dt s4;
          s6 = updateSystem C PlayerInteraction dt s5;
          s7 = updateSystem C SecurityCamera dt s6;
          s8 = updateSystem C Physics dt s7;
          s9 = updateSystem C PlayerDamage dt s8;
          s10 = updateSystem C DamageInfliction dt s9;
          s11 = updateSystem C Animation dt s10
      in updateSystem C MapScroll dt s11)"

definition showDebugText :: "('x, 'a) IngameMode \<Rightarrow> error + ('x, 'a) IngameMode" where
  "showDebugText s =
     (case playerEntity s of
        None \<Rightarrow> Inl InvalidComponentHandle
      | Some player \<Rightarrow>
          (case cWorldPosition player of
             None \<Rightarrow> Inl InvalidComponentHandle
           | Some playerPos \<Rightarrow>
               (case cPhysical player of
                  None \<Rightarrow> Inl InvalidComponentHandle
                | Some physical \<Rightarrow>
                    Inr (logEvents
                           [ShowDebugText (mScrollOffset (mWorld s)) playerPos (mVelocity physical)]
                           s))))"

text \<open>The part "Rendering" of \<open>updateAndRender\<close>: the block that draws into the render
  target and the drawing of the target, which cannot fail, and then the debug text.\<close>

definition renderPass ::
  "('x, 'a) Collaborators \<Rightarrow> TimeDelta \<Rightarrow> ('x, 'a) IngameMode \<Rightarrow> ('x, 'a) IngameMode" where
  "renderPass C dt s =
     (let s1 = logEvents [BindRenderTarget] s;
          s2 = updateSystem C Rendering dt s1;
          s3 = updateDebuggingSystem C dt s2;
          s4 = updateHud C dt s3
      in logEvents [UnbindRenderTarget, RenderTargetRender] s4)"

definition renderFrame ::
  "('x, 'a) Collaborators \<Rightarrow> TimeDelta \<Rightarrow> ('x, 'a) IngameMode \<Rightarrow> error + ('x, 'a) IngameMode" where
  "renderFrame C dt s =
     (let s5 = renderPass C dt s
      in if mShowDebugText s5 then showDebugText s5 else Inr s5)"

text \<open>The body of the lambda of \<open>checkForLevelExitReached\<close>, for one entity with a
  \<open>Trigger\<close> and a \<open>WorldPosition\<close>.\<close>

definition levelExitTrigger ::
  "('x, 'a) Collaborators \<Rightarrow> Trigger \<Rightarrow> Vector \<Rightarrow> ('x, 'a) IngameMode
   \<Rightarrow> error + ('x, 'a) IngameMode" where
  "levelExitTrigger C trigger triggerPosition s =
     (if mType trigger \<noteq> LevelExit \<or> mLevelFinished s then Inr s
      else
        (case playerEntity s of
           None \<Rightarrow> Inl InvalidComponentHandle
         | Some player \<Rightarrow>
             (case cWorldPosition player of
                None \<Rightarrow> Inl InvalidComponentHandle
              | Some playerPosition \<Rightarrow>
                  (case cBoundingBox player of
                     None \<Rightarrow> Inl InvalidComponentHandle
                   | Some bbox \<Rightarrow>
                       (let playerBBox = toWorldSpace (externals C) bbox playerPosition;
                            playerAboveOrAtTriggerHeight =
                              (rectBottom (externals C) playerBBox \<le> vec_y triggerPosition);
                            touchingTriggerOnXAxis =
                              (vec_x triggerPosition \<ge> rectLeft (externals C) playerBBox
                               \<and> vec_x triggerPosition
                                    \<le> int32 (rectRight (externals C) playerBBox + 1))
                        in Inr (s\<lparr>mLevelFinished :=
                                    playerAboveOrAtTriggerHeight \<and> touchingTriggerOnXAxis\<rparr>))))))"

text \<open>\<open>entities.each<Trigger, WorldPosition>(f)\<close>: \<open>f\<close> is called, in the order of the
  store, on each entity that has both components; a failed call ends the loop.\<close>

fun eachTriggerWithPosition ::
  "(Trigger \<Rightarrow> Vector \<Rightarrow> 's \<Rightarrow> error + 's) \<Rightarrow> Entity list \<Rightarrow> 's \<Rightarrow> error + 's" where
  "eachTriggerWithPosition f [] s = Inr s"
| "eachTriggerWithPosition f (e # es) s =
     (case (cTrigger e, cWorldPosition e) of
        (Some trigger, Some triggerPosition) \<Rightarrow>
          (case f trigger triggerPosition s of
             Inl err \<Rightarrow> Inl err
           | Inr s' \<Rightarrow> eachTriggerWithPosition f es s')
      | _ \<Rightarrow> eachTriggerWithPosition f es s)"

definition checkForLevelExitReached ::
  "('x, 'a) Collaborators \<Rightarrow> ('x, 'a) IngameMode \<Rightarrow> error + ('x, 'a) IngameMode" where
  "checkForLevelExitReached C s =
     eachTriggerWithPosition (levelExitTrigger C) (entities (mWorld s)) s"

text \<open>The statements of \<open>restartLevel\<close> before its call of \<open>updateAndRender(0)\<close>.\<close>

definition resetLevel ::
  "('x, 'a) Collaborators \<Rightarrow> ('x, 'a) IngameMode \<Rightarrow> ('x, 'a) IngameMode" where
  "resetLevel C s =
     (let s1 = logEvents [FadeOutScreen] s;
          s2 = s1\<lparr>mWorld := (mWorld s1)\<lparr>mMap := mMapAtLevelStart s1\<rparr>\<rparr>;
          s3 = s2\<lparr>mWorld := (mWorld s2)\<lparr>entities := []\<rparr>\<rparr>;
          (es, player) = createEntitiesForLevel C (mInitialActors s3) (entities (mWorld s3));
          s4 = s3\<lparr>mWorld := (mWorld s3)\<lparr>entities := es\<rparr>, mPlayerEntity := player\<rparr>
      in s4\<lparr>mWorld := (mWorld s4)\<lparr>mPlayerModel := mPlayerModelAtLevelStart s4\<rparr>\<rparr>)"

text \<open>
  \<open>updateAndRender\<close>, \<open>checkForPlayerDeath\<close> and \<open>restartLevel\<close> call each other. The
  first argument bounds the depth of restarts inside one call: \<open>restartLevel\<close> with bound
  \<open>0\<close> gives \<open>RestartDepthExceeded\<close>, and each restart runs its \<open>updateAndRender(0)\<close> with
  the bound one less.
\<close>

fun updateAndRender ::
  "nat \<Rightarrow> ('x, 'a) Collaborators \<Rightarrow> TimeDelta \<Rightarrow> ('x, 'a) IngameMode
   \<Rightarrow> error + ('x, 'a) IngameMode"
and checkForPlayerDeath ::
  "nat \<Rightarrow> ('x, 'a) Collaborators \<Rightarrow> ('x, 'a) IngameMode \<Rightarrow> error + ('x, 'a) IngameMode"
and restartLevel ::
  "nat \<Rightarrow> ('x, 'a) Collaborators \<Rightarrow> ('x, 'a) IngameMode \<Rightarrow> error + ('x, 'a) IngameMode"
where
  "updateAndRender n C dt s =
     (if mLevelFinished s then Inr s
      else
        (case renderFrame C dt (updateSystems C dt s) of
           Inl err \<Rightarrow> Inl err
         | Inr s1 \<Rightarrow>
             (case checkForPlayerDeath n C s1 of
                Inl err \<Rightarrow> Inl err
              | Inr s2 \<Rightarrow> checkForLevelExitReached C s2)))"
| "checkForPlayerDeath n C s =
     (case playerEntity s of
        None \<Rightarrow> Inl InvalidComponentHandle
      | Some player \<Rightarrow>
          (case cPlayerControlled player of
             None \<Rightarrow> Inl InvalidComponentHandle
           | Some playerState \<Rightarrow>
               (let playerDead =
                      (mState playerState = Dead \<and> mHealth (mPlayerModel (mWorld s)) \<le> 0)
                in if playerDead then restartLevel n C s else Inr s)))"
| "restartLevel 0 C s = Inl RestartDepthExceeded"
| "restartLevel (Suc n) C s =
     (case updateAndRender n C 0 (resetLevel C s) of
        Inl err \<Rightarrow> Inl err
      | Inr s1 \<Rightarrow> Inr (logEvents [FadeInScreen] s1))"

definition levelFinished :: "('x, 'a) IngameMode \<Rightarrow> bool" where
  "levelFinished s = mLevelFinished s"

text \<open>\<open>std::to_string\<close> of an \<open>int\<close>: its decimal digits, after a minus sign when it is
  negative.\<close>

fun decimalDigits :: "nat \<Rightarrow> string" where
  "decimalDigits n =
     (if n < 10 then [''0123456789'' ! n]
      else decimalDigits (n div 10) @ [''0123456789'' ! (n mod 10)])"

declare decimalDigits.simps [simp del]

definition to_string :: "int \<Rightarrow> string" where
  "to_string i = (if i < 0 then CHR ''-'' # decimalDigits (nat (- i)) else decimalDigits (nat i))"

definition EPISODE_PREFIXES :: string where
  "EPISODE_PREFIXES = ''LMNO''"

text \<open>\<open>levelFileName\<close> and \<open>loadingScreenFileName\<close>, with their assertions.\<close>

definition levelFileName :: "int \<Rightarrow> int \<Rightarrow> error + string" where
  "levelFileName episode level =
     (if \<not> (episode \<ge> 0 \<and> episode < 4) then Inl AssertionFailed
      else if \<not> (level \<ge> 0 \<and> level < 8) then Inl AssertionFailed
      else Inr ([EPISODE_PREFIXES ! nat episode] @ to_string (int32 (level + 1)) @ ''.MNI''))"

definition loadingScreenFileName :: "int \<Rightarrow> error + string" where
  "loadingScreenFileName episode =
     (if \<not> (episode \<ge> 0 \<and> episode < 4) then Inl AssertionFailed
      else Inr (''LOAD'' @ to_string (int32 (episode + 1)) @ ''.MNI''))"

text \<open>
  The constructor: the member initialisers, \<open>showLoadingScreen\<close>, \<open>loadLevel\<close> and the
  optional override of the player's position. The argument \<open>loadLevel\<close> is
  \<open>loader::loadLevel\<close> with the resources and the difficulty of the call: it takes the file
  name to what the loader returns (the parts used here). The values of the default-constructed members
  (\<open>mPlayerModel\<close>, \<open>mPlayerInputs\<close>, \<open>mScrollOffset\<close>), the flags the debugging system
  starts with and the state the other systems start with are fixed by declarations outside
  the files at hand and are arguments here. Entity identifiers are unique in the store, so
  the assignment through the player handle is written as an update of the entities with
  that identifier.
\<close>

record 'a LoadedLevel =
  loadedMap :: Map
  loadedActors :: 'a
  loadedMusicFile :: string

text \<open>The constructor after the two file names have been formed.\<close>

definition IngameMode_loaded ::
  "('x, 'a) Collaborators \<Rightarrow> string \<Rightarrow> 'a LoadedLevel \<Rightarrow> PlayerModel \<Rightarrow> PlayerInputState
   \<Rightarrow> Vector \<Rightarrow> DebuggingSystem \<Rightarrow> 'x \<Rightarrow> Vector option \<Rightarrow> error + ('x, 'a) IngameMode" where
  "IngameMode_loaded C loadingScreen loadedLevel playerModel inputs scrollOffset debugging
     systems playerPositionOverride =
     (let (es, player) = createEntitiesForLevel C (loadedActors loadedLevel) [];
          s = \<lparr>mWorld = \<lparr>entities = es, mMap = loadedMap loadedLevel,
                         mPlayerModel = playerModel, mScrollOffset = scrollOffset,
                         mSystemState = systems\<rparr>,
               mPlayerEntity = player,
               mPlayerInputs = inputs,
               mInitialActors = loadedActors loadedLevel,
               mMapAtLevelStart = loadedMap loadedLevel,
               mPlayerModelAtLevelStart = playerModel,
               mLevelFinished = False,
               mShowDebugText = False,
               mDebuggingSystem = debugging,
               mTrace = [FadeOutScreen, PlayMusic ''MENUSNG2.IMF'',
                         ShowLoadingScreen loadingScreen,
                         FadeInScreen, PlayMusic (loadedMusicFile loadedLevel)]\<rparr>
      in case playerPositionOverride of
           None \<Rightarrow> Inr s
         | Some pos \<Rightarrow>
             (case playerEntity s of
                None \<Rightarrow> Inl InvalidComponentHandle
              | Some playerFound \<Rightarrow>
                  (case cWorldPosition playerFound of
                     None \<Rightarrow> Inl InvalidComponentHandle
                   | Some old \<Rightarrow>
                       Inr (s\<lparr>mWorld := (mWorld s)
                              \<lparr>entities :=
                                 map (\<lambda>e. if entityId e = player
                                          then e\<lparr>cWorldPosition := Some pos\<rparr> else e)
                                   es\<rparr>\<rparr>))))"

definition IngameMode_new ::
  "('x, 'a) Collaborators \<Rightarrow> int \<Rightarrow> int \<Rightarrow> (string \<Rightarrow> 'a LoadedLevel) \<Rightarrow> PlayerModel
   \<Rightarrow> PlayerInputState \<Rightarrow> Vector \<Rightarrow> DebuggingSystem \<Rightarrow> 'x \<Rightarrow> Vector option
   \<Rightarrow> error + ('x, 'a) IngameMode" where
  "IngameMode_new C episode levelNumber loadLevel playerModel inputs scrollOffset debugging
     systems playerPositionOverride =
     (case loadingScreenFileName episode of
        Inl err \<Rightarrow> Inl err
      | Inr loadingScreen \<Rightarrow>
          (case levelFileName episode levelNumber of
             Inl err \<Rightarrow> Inl err
           | Inr fileName \<Rightarrow>
               IngameMode_loaded C loadingScreen (loadLevel fileName) playerModel inputs
                 scrollOffset debugging systems playerPositionOverride))"

text \<open>A sequence of calls made on one instance by its owner.\<close>

datatype Call = HandleEvent SDL_Event | UpdateAndRender TimeDelta

fun runCalls ::
  "nat \<Rightarrow> ('x, 'a) Collaborators \<Rightarrow> Call list \<Rightarrow> ('x, 'a) IngameMode
   \<Rightarrow> error + ('x, 'a) IngameMode" where
  "runCalls n C [] s = Inr s"
| "runCalls n C (HandleEvent event # calls) s = runCalls n C calls (handleEvent event s)"
| "runCalls n C (UpdateAndRender dt # calls) s =
     (case updateAndRender n C dt s of
        Inl err \<Rightarrow> Inl err
      | Inr s' \<Rightarrow> runCalls n C calls s')"

section \<open>Notions used to state the properties\<close>

text \<open>The test of the lambda of \<open>checkForLevelExitReached\<close> for an entity \<open>e\<close>, given the
  player's bounding box in world space: \<open>e\<close> has a \<open>Trigger\<close> of type \<open>LevelExit\<close> and a
  \<open>WorldPosition\<close>, and the box touches it.\<close>

definition atLevelExit :: "Externals \<Rightarrow> Rect \<Rightarrow> Entity \<Rightarrow> bool" where
  "atLevelExit X playerBBox e =
     (case (cTrigger e, cWorldPosition e) of
        (Some trigger, Some triggerPosition) \<Rightarrow>
          mType trigger = LevelExit
          \<and> rectBottom X playerBBox \<le> vec_y triggerPosition
          \<and> vec_x triggerPosition \<ge> rectLeft X playerBBox
          \<and> vec_x triggerPosition \<le> int32 (rectRight X playerBBox + 1)
      | _ \<Rightarrow> False)"

text \<open>The test of \<open>checkForPlayerDeath\<close>, where the player entity has its
  \<open>PlayerControlled\<close> component.\<close>

definition playerDead :: "('x, 'a) IngameMode \<Rightarrow> bool" where
  "playerDead s =
     (case playerEntity s of
        None \<Rightarrow> False
      | Some player \<Rightarrow>
          (case cPlayerControlled player of
             None \<Rightarrow> False
           | Some playerState \<Rightarrow>
               mState playerState = Dead \<and> mHealth (mPlayerModel (mWorld s)) \<le> 0))"

text \<open>The members that the updating and rendering part of a frame never writes.\<close>

definition unchanged :: "('x, 'a) IngameMode \<Rightarrow> ('x, 'a) IngameMode \<Rightarrow> bool" where
  "unchanged s s' =
     (mPlayerEntity s' = mPlayerEntity s \<and> mPlayerInputs s' = mPlayerInputs s
      \<and> mInitialActors s' = mInitialActors s \<and> mMapAtLevelStart s' = mMapAtLevelStart s
      \<and> mPlayerModelAtLevelStart s' = mPlayerModelAtLevelStart s
      \<and> mLevelFinished s' = mLevelFinished s \<and> mShowDebugText s' = mShowDebugText s
      \<and> mDebuggingSystem s' = mDebuggingSystem s)"

text \<open>What a whole call of \<open>updateAndRender\<close> or \<open>restartLevel\<close> keeps: the input flags,
  the level-start snapshots, the debug switches; the level-finished flag is never cleared;
  the trace only grows.\<close>

definition stable :: "('x, 'a) IngameMode \<Rightarrow> ('x, 'a) IngameMode \<Rightarrow> bool" where
  "stable s s' =
     (mPlayerInputs s' = mPlayerInputs s
      \<and> mInitialActors s' = mInitialActors s \<and> mMapAtLevelStart s' = mMapAtLevelStart s
      \<and> mPlayerModelAtLevelStart s' = mPlayerModelAtLevelStart s
      \<and> mShowDebugText s' = mShowDebugText s
      \<and> mDebuggingSystem s' = mDebuggingSystem s
      \<and> (mLevelFinished s \<longrightarrow> mLevelFinished s')
      \<and> (\<exists>evs. mTrace s' = mTrace s @ evs))"

definition debugEvents :: "('x, 'a) Collaborators \<Rightarrow> ('x, 'a) IngameMode \<Rightarrow> Event list" where
  "debugEvents C s =
     DebuggingSystem_update (externals C) (mDebuggingSystem s) (mScrollOffset (mWorld s))
       (mMap (mWorld s)) (entities (mWorld s))"

text \<open>The events a call added to the trace, and the system updates among them.\<close>

definition newEvents :: "('x, 'a) IngameMode \<Rightarrow> ('x, 'a) IngameMode \<Rightarrow> Event list" where
  "newEvents s s' = drop (length (mTrace s)) (mTrace s')"

fun systemUpdatesOf :: "Event list \<Rightarrow> (SystemId \<times> TimeDelta) list" where
  "systemUpdatesOf [] = []"
| "systemUpdatesOf (SystemUpdate sys dt # evs) = (sys, dt) # systemUpdatesOf evs"
| "systemUpdatesOf (ev # evs) = systemUpdatesOf evs"

definition frameOrder :: "TimeDelta \<Rightarrow> (SystemId \<times> TimeDelta) list" where
  "frameOrder dt =
     map (\<lambda>sys. (sys, dt))
       [Elevator, PlayerMovement, Attack, PlayerInteraction, SecurityCamera, Physics,
        PlayerDamage, DamageInfliction, Animation, MapScroll, Rendering, Debugging]"

text \<open>A lookup in the map is inside the grid; every other event passes.\<close>

definition queryInGrid :: "Map \<Rightarrow> Event \<Rightarrow> bool" where
  "queryInGrid m ev =
     (case ev of
        CollisionDataQuery col row \<Rightarrow> inGrid m col row
      | AttributesQuery col row \<Rightarrow> inGrid m col row
      | _ \<Rightarrow> True)"

text \<open>A lookup in the map is at a column and a row that the comparisons of the code
  with the width and the height let through; every other event passes.\<close>

definition queryBelowBounds :: "SizeType \<Rightarrow> Map \<Rightarrow> Event \<Rightarrow> bool" where
  "queryBelowBounds t m ev =
     (case ev of
        CollisionDataQuery col row \<Rightarrow>
          \<not> notBelowSize t col (mapWidth m) \<and> \<not> notBelowSize t row (mapHeight m)
      | AttributesQuery col row \<Rightarrow>
          \<not> notBelowSize t col (mapWidth m) \<and> \<not> notBelowSize t row (mapHeight m)
      | _ \<Rightarrow> True)"

text \<open>The level-finished flag of a result, \<open>None\<close> for a call that failed.\<close>

definition levelFinishedAfter :: "error + ('x, 'a) IngameMode \<Rightarrow> bool option" where
  "levelFinishedAfter r = (case r of Inl err \<Rightarrow> None | Inr s \<Rightarrow> Some (mLevelFinished s))"

text \<open>
  The end of a frame as the specification words it: the level-exit check first, the
  player-death check second. The code has them in the other order (\<open>updateAndRender\<close>).
\<close>

definition spec_updateAndRender ::
  "nat \<Rightarrow> ('x, 'a) Collaborators \<Rightarrow> TimeDelta \<Rightarrow> ('x, 'a) IngameMode
   \<Rightarrow> error + ('x, 'a) IngameMode" where
  "spec_updateAndRender n C dt s =
     (if mLevelFinished s then Inr s
      else
        (case renderFrame C dt (updateSystems C dt s) of
           Inl err \<Rightarrow> Inl err
         | Inr s1 \<Rightarrow>
             (case checkForLevelExitReached C s1 of
                Inl err \<Rightarrow> Inl err
              | Inr s2 \<Rightarrow> checkForPlayerDeath n C s2)))"

section \<open>A concrete level\<close>

text \<open>
  The parameters for the examples: \<open>width()\<close> and \<open>height()\<close> of type \<open>int\<close>, a view port of
  32 by 20 tiles of 8 pixels, a rectangle whose right and bottom edges are its last column
  and row, and \<open>toWorldSpace\<close> placing the box so that its bottom row is the row of the
  position.
\<close>

definition exampleExternals :: Externals where
  "exampleExternals =
     \<lparr>mapSizeType = ReturnsSigned,
      mapViewPortWidthTiles = 32,
      mapViewPortHeightTiles = 20,
      tilesToPixels = (\<lambda>t. t * 8),
      tileVectorToPixelVector = (\<lambda>v. \<lparr>vec_x = vec_x v * 8, vec_y = vec_y v * 8\<rparr>),
      tileExtentsToPixelExtents = (\<lambda>sz. \<lparr>width = width sz * 8, height = height sz * 8\<rparr>),
      makeRect = (\<lambda>a b. \<lparr>topLeft = a,
                          rectSize = \<lparr>width = vec_x b - vec_x a, height = vec_y b - vec_y a\<rparr>\<rparr>),
      toWorldSpace = (\<lambda>bbox pos.
         \<lparr>topLeft = \<lparr>vec_x = vec_x (topLeft bbox) + vec_x pos,
                     vec_y = vec_y (topLeft bbox) + (vec_y pos - (height (rectSize bbox) - 1))\<rparr>,
          rectSize = rectSize bbox\<rparr>),
      rectLeft = (\<lambda>r. vec_x (topLeft r)),
      rectRight = (\<lambda>r. vec_x (topLeft r) + (width (rectSize r) - 1)),
      rectBottom = (\<lambda>r. vec_y (topLeft r) + (height (rectSize r) - 1))\<rparr>"

text \<open>A map of 64 by 32 tiles with a floor in row 6.\<close>

definition exampleMap :: Map where
  "exampleMap =
     \<lparr>mapWidth = 64, mapHeight = 32,
      collisionData = (\<lambda>col row edge. row = 6 \<and> edge = EdgeTop),
      attributes = (\<lambda>col row. \<lparr>isClimbable = False, isLadder = False, isFlammable = False\<rparr>)\<rparr>"

text \<open>The player: three tiles wide and five high, so that at position \<open>(9, 5)\<close> its box
  has left edge 9, right edge 11 and bottom edge 5.\<close>

definition examplePlayer :: "Vector \<Rightarrow> PlayerState \<Rightarrow> Entity" where
  "examplePlayer pos st =
     \<lparr>entityId = 0,
      cWorldPosition = Some pos,
      cBoundingBox = Some \<lparr>topLeft = \<lparr>vec_x = 0, vec_y = 0\<rparr>,
                           rectSize = \<lparr>width = 3, height = 5\<rparr>\<rparr>,
      cPhysical = Some \<lparr>mVelocity = (0, 0)\<rparr>,
      cPlayerControlled = Some \<lparr>mState = st\<rparr>,
      cTrigger = None,
      cMapGeometryLink = None,
      cPlayerDamaging = False,
      cSolidBody = False\<rparr>"

text \<open>A level-exit trigger at tile \<open>(10, 5)\<close>.\<close>

definition exampleExit :: Entity where
  "exampleExit =
     \<lparr>entityId = 1,
      cWorldPosition = Some \<lparr>vec_x = 10, vec_y = 5\<rparr>,
      cBoundingBox = None,
      cPhysical = None,
      cPlayerControlled = None,
      cTrigger = Some \<lparr>mType = LevelExit\<rparr>,
      cMapGeometryLink = None,
      cPlayerDamaging = False,
      cSolidBody = False\<rparr>"

text \<open>An entity whose only component is a \<open>MapGeometryLink\<close>, and a solid, damaging
  entity with a position, a box and a link.\<close>

definition exampleLinkOnly :: Entity where
  "exampleLinkOnly =
     \<lparr>entityId = 2,
      cWorldPosition = None,
      cBoundingBox = None,
      cPhysical = None,
      cPlayerControlled = None,
      cTrigger = None,
      cMapGeometryLink =
        Some \<lparr>mLinkedGeometrySection =
                \<lparr>topLeft = \<lparr>vec_x = 4, vec_y = 2\<rparr>, rectSize = \<lparr>width = 2, height = 3\<rparr>\<rparr>\<rparr>,
      cPlayerDamaging = False,
      cSolidBody = False\<rparr>"

definition exampleDoor :: Entity where
  "exampleDoor =
     \<lparr>entityId = 3,
      cWorldPosition = Some \<lparr>vec_x = 4, vec_y = 4\<rparr>,
      cBoundingBox = Some \<lparr>topLeft = \<lparr>vec_x = 0, vec_y = 0\<rparr>,
                           rectSize = \<lparr>width = 2, height = 3\<rparr>\<rparr>,
      cPhysical = None,
      cPlayerControlled = None,
      cTrigger = None,
      cMapGeometryLink =
        Some \<lparr>mLinkedGeometrySection =
                \<lparr>topLeft = \<lparr>vec_x = 4, vec_y = 2\<rparr>, rectSize = \<lparr>width = 2, height = 3\<rparr>\<rparr>\<rparr>,
      cPlayerDamaging = True,
      cSolidBody = True\<rparr>"

text \<open>Collaborators that leave the world as it is; the actor list is the list of the
  entities to create, the player first.\<close>

definition exampleCollaborators :: "(unit, Entity list) Collaborators" where
  "exampleCollaborators =
     \<lparr>externals = exampleExternals,
      systemUpdate = (\<lambda>sys dt inputs w. w),
      setInputState = (\<lambda>sys inputs x. x),
      hudUpdateAndRender = (\<lambda>dt model x. (model, x)),
      createEntitiesForLevel = (\<lambda>actors es. (es @ actors, 0))\<rparr>"

definition noInputs :: PlayerInputState where
  "noInputs =
     \<lparr>mMovingUp = False, mMovingDown = False, mMovingLeft = False, mMovingRight = False,
      mJumping = False, mShooting = False\<rparr>"

definition debugOff :: DebuggingSystem where
  "debugOff =
     \<lparr>mShowBoundingBoxes = False, mShowWorldCollisionData = False, mShowGrid = False\<rparr>"

text \<open>
  A mode in the middle of a level: the player at \<open>pos\<close> in state \<open>st\<close> with the given
  health, the exit trigger at \<open>(10, 5)\<close>, an actor list that creates the player at \<open>spawn\<close>,
  a player model of health 9 saved at the start of the level, the debug displays off.
\<close>

definition exampleMode ::
  "Vector \<Rightarrow> PlayerState \<Rightarrow> int \<Rightarrow> Vector \<Rightarrow> PlayerInputState \<Rightarrow> bool \<Rightarrow> Event list
   \<Rightarrow> (unit, Entity list) IngameMode" where
  "exampleMode pos st health spawn inputs finished trace =
     \<lparr>mWorld = \<lparr>entities = [examplePlayer pos st, exampleExit],
                mMap = exampleMap,
                mPlayerModel = \<lparr>mHealth = health\<rparr>,
                mScrollOffset = \<lparr>vec_x = 0, vec_y = 0\<rparr>,
                mSystemState = ()\<rparr>,
      mPlayerEntity = 0,
      mPlayerInputs = inputs,
      mInitialActors = [examplePlayer spawn Standing, exampleExit],
      mMapAtLevelStart = exampleMap,
      mPlayerModelAtLevelStart = \<lparr>mHealth = 9\<rparr>,
      mLevelFinished = finished,
      mShowDebugText = False,
      mDebuggingSystem = debugOff,
      mTrace = trace\<rparr>"

text \<open>The events of one frame of the concrete level, before the end-of-frame checks.\<close>

text \<open>The loader of the examples: the first level of the first episode is the level
  of \<open>exampleMode\<close>; every other file holds an empty map.\<close>

definition exampleLoadLevel :: "string \<Rightarrow> Entity list LoadedLevel" where
  "exampleLoadLevel fileName =
     (if fileName = ''L1.MNI''
      then \<lparr>loadedMap = exampleMap,
            loadedActors = [examplePlayer \<lparr>vec_x = 2, vec_y = 5\<rparr> Standing, exampleExit],
            loadedMusicFile = ''LEVEL1.IMF''\<rparr>
      else \<lparr>loadedMap = exampleMap\<lparr>mapWidth := 0, mapHeight := 0\<rparr>,
            loadedActors = [],
            loadedMusicFile = ''''\<rparr>)"

definition exampleFrameEvents :: "PlayerInputState \<Rightarrow> TimeDelta \<Rightarrow> Event list" where
  "exampleFrameEvents inputs dt =
     [SetInputState Attack inputs, SetInputState Elevator inputs,
      SystemUpdate Elevator dt, SystemUpdate PlayerMovement dt, SystemUpdate Attack dt,
      SystemUpdate PlayerInteraction dt, SystemUpdate SecurityCamera dt,
      SystemUpdate Physics dt, SystemUpdate PlayerDamage dt,
      SystemUpdate DamageInfliction dt, SystemUpdate Animation dt,
      SystemUpdate MapScroll dt,
      BindRenderTarget, SystemUpdate Rendering dt, SystemUpdate Debugging dt,
      HudUpdateAndRender dt, UnbindRenderTarget, RenderTargetRender]"

text \<open>
  Collaborators whose systems write their name into the state of the systems, so that the
  order of the updates can be read off the world, and a state to run them on.
\<close>

definition recordingCollaborators :: "(SystemId list, Entity list) Collaborators" where
  "recordingCollaborators =
     \<lparr>externals = exampleExternals,
      systemUpdate = (\<lambda>sys dt inputs w. w\<lparr>mSystemState := mSystemState w @ [sys]\<rparr>),
      setInputState = (\<lambda>sys inputs x. x),
      hudUpdateAndRender = (\<lambda>dt model x. (model, x)),
      createEntitiesForLevel = (\<lambda>actors es. (es @ actors, 0))\<rparr>"

definition recordingMode :: "(SystemId list, Entity list) IngameMode" where
  "recordingMode =
     \<lparr>mWorld = \<lparr>entities = [], mMap = exampleMap, mPlayerModel = \<lparr>mHealth = 9\<rparr>,
                mScrollOffset = \<lparr>vec_x = 0, vec_y = 0\<rparr>, mSystemState = []\<rparr>,
      mPlayerEntity = 0,
      mPlayerInputs = noInputs,
      mInitialActors = [],
      mMapAtLevelStart = exampleMap,
      mPlayerModelAtLevelStart = \<lparr>mHealth = 9\<rparr>,
      mLevelFinished = False,
      mShowDebugText = False,
      mDebuggingSystem = debugOff,
      mTrace = []\<rparr>"

section \<open>Properties of the debugging system\<close>

text \<open>
  Claim C8. Each of the three display toggles is an involution: applied twice it gives the
  debugging system back as it was. Each toggle negates its own flag and leaves the other
  two flags as they are; in particular toggling the bounding-box display changes neither
  the grid flag nor the collision-data flag.
\<close>

theorem debug_toggles_involution_independent:
  "toggleBoundingBoxDisplay (toggleBoundingBoxDisplay d) = d
   \<and> toggleWorldCollisionDataDisplay (toggleWorldCollisionDataDisplay d) = d
   \<and> toggleGridDisplay (toggleGridDisplay d) = d
   \<and> mShowBoundingBoxes (toggleBoundingBoxDisplay d) = (\<not> mShowBoundingBoxes d)
   \<and> mShowWorldCollisionData (toggleBoundingBoxDisplay d) = mShowWorldCollisionData d
   \<and> mShowGrid (toggleBoundingBoxDisplay d) = mShowGrid d
   \<and> mShowWorldCollisionData (toggleWorldCollisionDataDisplay d) = (\<not> mShowWorldCollisionData d)
   \<and> mShowBoundingBoxes (toggleWorldCollisionDataDisplay d) = mShowBoundingBoxes d
   \<and> mShowGrid (toggleWorldCollisionDataDisplay d) = mShowGrid d
   \<and> mShowGrid (toggleGridDisplay d) = (\<not> mShowGrid d)
   \<and> mShowBoundingBoxes (toggleGridDisplay d) = mShowBoundingBoxes d
   \<and> mShowWorldCollisionData (toggleGridDisplay d) = mShowWorldCollisionData d"
  by (simp add: toggleBoundingBoxDisplay_def toggleWorldCollisionDataDisplay_def
        toggleGridDisplay_def)

section \<open>Auxiliary facts about the debugging system\<close>

lemma int32_range: "- 2147483648 \<le> int32 v \<and> int32 v < 2147483648"
  by (simp add: int32_def)

lemma int32_id [simp]: "- 2147483648 \<le> v \<Longrightarrow> v < 2147483648 \<Longrightarrow> int32 v = v"
  by (simp add: int32_def)

lemma notBelowSize_unsigned:
  assumes "32 \<le> bits" "- 2147483648 \<le> i" "i < 2147483648" "sz \<le> 2147483648"
    and "\<not> notBelowSize (ReturnsUnsigned bits) i sz"
  shows "0 \<le> i \<and> i < sz"
proof -
  have "(2::int) ^ 32 \<le> 2 ^ bits"
    using assms(1) by (intro power_increasing) simp_all
  then have big: "(4294967296::int) \<le> 2 ^ bits" by simp
  show ?thesis
  proof (cases "0 \<le> i")
    case True
    then have "i mod 2 ^ bits = i" using assms(3) big by simp
    then show ?thesis using True assms(5) by simp
  next
    case False
    have "(i + 2 ^ bits) mod 2 ^ bits = i + 2 ^ bits"
      using False assms(2) big by (intro mod_pos_pos_trivial) simp_all
    then have "i mod 2 ^ bits = i + 2 ^ bits" by simp
    then have "sz \<le> i mod 2 ^ bits" using assms(2,4) big by simp
    then show ?thesis using assms(5) by simp
  qed
qed

lemma in_worldCollisionPass:
  "ev \<in> set (worldCollisionPass X cameraPos m) \<Longrightarrow>
     \<exists>x y. 0 \<le> x \<and> x < mapViewPortWidthTiles X \<and> 0 \<le> y \<and> y < mapViewPortHeightTiles X
       \<and> ev \<in> set (collisionTile X cameraPos m x y)"
  by (fastforce simp: worldCollisionPass_def)

lemma queryInGrid_draws [simp]:
  "queryInGrid m (DrawLine x1 y1 x2 y2 c)" "queryInGrid m (DrawRectangle r c)"
  by (simp_all add: queryInGrid_def)

lemma collisionTile_queries:
  assumes "ev \<in> set (collisionTile X cameraPos m x y)"
  shows "(\<forall>col row. ev \<noteq> CollisionDataQuery col row \<and> ev \<noteq> AttributesQuery col row) \<or>
     (ev \<in> {CollisionDataQuery (int32 (x + vec_x cameraPos)) (int32 (y + vec_y cameraPos)),
            AttributesQuery (int32 (x + vec_x cameraPos)) (int32 (y + vec_y cameraPos))}
      \<and> \<not> notBelowSize (mapSizeType X) (int32 (x + vec_x cameraPos)) (mapWidth m)
      \<and> \<not> notBelowSize (mapSizeType X) (int32 (y + vec_y cameraPos)) (mapHeight m))"
  using assms
  by (auto simp: collisionTile_def Let_def solidEdgeLines_def split: if_splits)

lemma list_all_entityBoxes [simp]: "list_all (queryInGrid m) (entityBoxes X cameraPos es)"
  by (auto simp: entityBoxes_def list_all_iff split: option.splits)

lemma list_all_linkBoxes [simp]: "list_all (queryInGrid m) (linkBoxes X cameraPos es)"
  by (auto simp: linkBoxes_def list_all_iff split: option.splits)

lemma list_all_gridPass [simp]: "list_all (queryInGrid m) (gridPass X)"
  by (auto simp: gridPass_def Let_def list_all_iff)

lemma queryBelowBounds_draws [simp]:
  "queryBelowBounds t m (DrawLine x1 y1 x2 y2 c)" "queryBelowBounds t m (DrawRectangle r c)"
  by (simp_all add: queryBelowBounds_def)

lemma list_all_below_entityBoxes [simp]:
  "list_all (queryBelowBounds t m) (entityBoxes X cameraPos es)"
  by (auto simp: entityBoxes_def list_all_iff split: option.splits)

lemma list_all_below_linkBoxes [simp]:
  "list_all (queryBelowBounds t m) (linkBoxes X cameraPos es)"
  by (auto simp: linkBoxes_def list_all_iff split: option.splits)

lemma list_all_below_gridPass [simp]: "list_all (queryBelowBounds t m) (gridPass X)"
  by (auto simp: gridPass_def Let_def list_all_iff)

lemma collisionTile_has_query:
  "\<not> notBelowSize (mapSizeType X) (int32 (x + vec_x cameraPos)) (mapWidth m) \<Longrightarrow>
   \<not> notBelowSize (mapSizeType X) (int32 (y + vec_y cameraPos)) (mapHeight m) \<Longrightarrow>
   CollisionDataQuery (int32 (x + vec_x cameraPos)) (int32 (y + vec_y cameraPos))
     \<in> set (collisionTile X cameraPos m x y)"
  by (simp add: collisionTile_def Let_def)

lemma in_concat_map: "x \<in> set xs \<Longrightarrow> a \<in> set (f x) \<Longrightarrow> a \<in> set (concat (map f xs))"
  by auto

lemma worldCollisionPass_has_query:
  assumes "0 \<le> x" "x < mapViewPortWidthTiles X" "0 \<le> y" "y < mapViewPortHeightTiles X"
    and "\<not> notBelowSize (mapSizeType X) (int32 (x + vec_x cameraPos)) (mapWidth m)"
      "\<not> notBelowSize (mapSizeType X) (int32 (y + vec_y cameraPos)) (mapHeight m)"
  shows "CollisionDataQuery (int32 (x + vec_x cameraPos)) (int32 (y + vec_y cameraPos))
     \<in> set (worldCollisionPass X cameraPos m)"
proof -
  have iy: "y \<in> set [0 .. mapViewPortHeightTiles X - 1]"
    and ix: "x \<in> set [0 .. mapViewPortWidthTiles X - 1]"
    using assms(1-4) by simp_all
  have "CollisionDataQuery (int32 (x + vec_x cameraPos)) (int32 (y + vec_y cameraPos))
      \<in> set (collisionTile X cameraPos m x y)"
    using assms(5,6) by (rule collisionTile_has_query)
  with ix have "CollisionDataQuery (int32 (x + vec_x cameraPos)) (int32 (y + vec_y cameraPos))
      \<in> set (concat (map (\<lambda>x. collisionTile X cameraPos m x y)
                        [0 .. mapViewPortWidthTiles X - 1]))"
    by (rule in_concat_map)
  with iy show ?thesis
    unfolding worldCollisionPass_def by (rule in_concat_map)
qed

section \<open>Auxiliary facts about the in-game mode\<close>

lemma unchanged_refl [simp]: "unchanged s s"
  by (simp add: unchanged_def)

lemma unchanged_trans: "unchanged s t \<Longrightarrow> unchanged t u \<Longrightarrow> unchanged s u"
  by (simp add: unchanged_def)

lemma unchanged_logEvents [simp]: "unchanged s (logEvents evs t) = unchanged s t"
  by (simp add: unchanged_def logEvents_def)

lemma unchanged_setSystemInput [simp]: "unchanged s (setSystemInput C sys t) = unchanged s t"
  by (simp add: unchanged_def setSystemInput_def logEvents_def)

lemma unchanged_updateSystem [simp]: "unchanged s (updateSystem C sys dt t) = unchanged s t"
  by (simp add: unchanged_def updateSystem_def logEvents_def)

lemma unchanged_updateDebuggingSystem [simp]:
  "unchanged s (updateDebuggingSystem C dt t) = unchanged s t"
  by (simp add: unchanged_def updateDebuggingSystem_def logEvents_def)

lemma unchanged_updateHud [simp]: "unchanged s (updateHud C dt t) = unchanged s t"
  by (simp add: unchanged_def updateHud_def logEvents_def split: prod.split)

lemma unchanged_updateSystems [simp]: "unchanged s (updateSystems C dt t) = unchanged s t"
  by (simp add: updateSystems_def Let_def)

lemma unchanged_showDebugText: "showDebugText t = Inr s' \<Longrightarrow> unchanged s s' = unchanged s t"
  by (auto simp: showDebugText_def split: option.splits)

lemma unchanged_renderFrame: "renderFrame C dt t = Inr s' \<Longrightarrow> unchanged s s' = unchanged s t"
  by (auto simp: renderFrame_def renderPass_def Let_def unchanged_showDebugText split: if_splits)

lemma unchanged_renderPass [simp]: "unchanged s (renderPass C dt t) = unchanged s t"
  by (simp add: renderPass_def Let_def)

lemma mShowDebugText_frame:
  "mShowDebugText (renderPass C dt (updateSystems C dt s)) = mShowDebugText s"
proof -
  have "unchanged s (renderPass C dt (updateSystems C dt s))" by simp
  then show ?thesis by (simp add: unchanged_def)
qed

lemma playerEntity_mLevelFinished [simp]:
  "playerEntity (s\<lparr>mLevelFinished := b\<rparr>) = playerEntity s"
  by (simp add: playerEntity_def)

lemma playerEntity_logEvents [simp]: "playerEntity (logEvents evs s) = playerEntity s"
  by (simp add: playerEntity_def logEvents_def)

lemma levelExitTrigger_flag:
  "levelExitTrigger C trigger pos s = Inr s' \<Longrightarrow>
     \<exists>b. s' = s\<lparr>mLevelFinished := b\<rparr> \<and> (mLevelFinished s \<longrightarrow> b)"
  unfolding levelExitTrigger_def Let_def
  by (cases "mType trigger \<noteq> LevelExit \<or> mLevelFinished s")
     (auto split: option.splits intro: exI [of _ "mLevelFinished s"])

lemma eachTrigger_flag:
  "eachTriggerWithPosition (levelExitTrigger C) es s = Inr s' \<Longrightarrow>
     \<exists>b. s' = s\<lparr>mLevelFinished := b\<rparr> \<and> (mLevelFinished s \<longrightarrow> b)"
proof (induction es arbitrary: s)
  case Nil
  then show ?case by (auto intro: exI [of _ "mLevelFinished s"])
next
  case (Cons e es)
  show ?case
  proof (cases "cTrigger e")
    case None
    with Cons show ?thesis by simp
  next
    case trg: (Some trigger)
    show ?thesis
    proof (cases "cWorldPosition e")
      case None
      with Cons trg show ?thesis by simp
    next
      case (Some pos)
      with Cons.prems trg obtain s1 where
        s1: "levelExitTrigger C trigger pos s = Inr s1"
        and rest: "eachTriggerWithPosition (levelExitTrigger C) es s1 = Inr s'"
        by (auto split: sum.splits)
      from levelExitTrigger_flag [OF s1] obtain b1 where
        b1: "s1 = s\<lparr>mLevelFinished := b1\<rparr>" "mLevelFinished s \<longrightarrow> b1" by blast
      from Cons.IH [OF rest] obtain b2 where
        b2: "s' = s1\<lparr>mLevelFinished := b2\<rparr>" "mLevelFinished s1 \<longrightarrow> b2" by blast
      from b1 b2 have "s' = s\<lparr>mLevelFinished := b2\<rparr> \<and> (mLevelFinished s \<longrightarrow> b2)" by simp
      then show ?thesis by blast
    qed
  qed
qed

lemma checkForLevelExitReached_flag:
  "checkForLevelExitReached C s = Inr s' \<Longrightarrow>
     \<exists>b. s' = s\<lparr>mLevelFinished := b\<rparr> \<and> (mLevelFinished s \<longrightarrow> b)"
  unfolding checkForLevelExitReached_def by (rule eachTrigger_flag)

lemma atLevelExit_no_trigger: "cTrigger e = None \<Longrightarrow> \<not> atLevelExit X box e"
  by (simp add: atLevelExit_def)

lemma atLevelExit_no_position: "cWorldPosition e = None \<Longrightarrow> \<not> atLevelExit X box e"
  by (simp add: atLevelExit_def split: option.splits)

lemma atLevelExit_components:
  "cTrigger e = Some trigger \<Longrightarrow> cWorldPosition e = Some triggerPosition \<Longrightarrow>
   atLevelExit X box e =
     (mType trigger = LevelExit \<and> rectBottom X box \<le> vec_y triggerPosition
      \<and> rectLeft X box \<le> vec_x triggerPosition
      \<and> vec_x triggerPosition \<le> int32 (rectRight X box + 1))"
  by (simp add: atLevelExit_def)

lemma eachTrigger_exact:
  assumes "playerEntity s = Some player" "cWorldPosition player = Some playerPosition"
    "cBoundingBox player = Some bbox"
  shows "eachTriggerWithPosition (levelExitTrigger C) es s =
     Inr (s\<lparr>mLevelFinished := mLevelFinished s
            \<or> list_ex (atLevelExit (externals C) (toWorldSpace (externals C) bbox playerPosition)) es\<rparr>)"
  using assms
proof (induction es arbitrary: s)
  case Nil
  then show ?case by simp
next
  case (Cons e es)
  have step: "eachTriggerWithPosition (levelExitTrigger C) es (s\<lparr>mLevelFinished := b\<rparr>) =
     Inr (s\<lparr>mLevelFinished := b
            \<or> list_ex (atLevelExit (externals C) (toWorldSpace (externals C) bbox playerPosition)) es\<rparr>)"
    for b
    using Cons.IH [of "s\<lparr>mLevelFinished := b\<rparr>"] Cons.prems by simp
  have same: "eachTriggerWithPosition (levelExitTrigger C) es s =
     Inr (s\<lparr>mLevelFinished := mLevelFinished s
            \<or> list_ex (atLevelExit (externals C) (toWorldSpace (externals C) bbox playerPosition)) es\<rparr>)"
    using Cons.IH [of s] Cons.prems by simp
  show ?case
  proof (cases "cTrigger e")
    case None
    then show ?thesis using same by (simp add: atLevelExit_no_trigger)
  next
    case trg: (Some trigger)
    show ?thesis
    proof (cases "cWorldPosition e")
      case None
      then show ?thesis using same trg by (simp add: atLevelExit_no_position)
    next
      case (Some pos)
      show ?thesis
      proof (cases "mType trigger \<noteq> LevelExit \<or> mLevelFinished s")
        case True
        then have "levelExitTrigger C trigger pos s = Inr s"
          by (simp add: levelExitTrigger_def)
        moreover have "\<not> mLevelFinished s \<Longrightarrow>
            \<not> atLevelExit (externals C) (toWorldSpace (externals C) bbox playerPosition) e"
          using True by (simp add: atLevelExit_components [OF trg Some])
        ultimately show ?thesis using same trg Some
          by (cases "mLevelFinished s") simp_all
      next
        case False
        then have "levelExitTrigger C trigger pos s =
            Inr (s\<lparr>mLevelFinished :=
                 atLevelExit (externals C) (toWorldSpace (externals C) bbox playerPosition) e\<rparr>)"
          using Cons.prems
          by (simp add: levelExitTrigger_def atLevelExit_components [OF trg Some] Let_def)
        then show ?thesis using step trg Some False by simp
      qed
    qed
  qed
qed

declare updateAndRender.simps [simp del] checkForPlayerDeath.simps [simp del]

lemma mWorld_logEvents [simp]: "mWorld (logEvents evs s) = mWorld s"
  by (simp add: logEvents_def)

lemma playerDead_mLevelFinished [simp]: "playerDead (s\<lparr>mLevelFinished := b\<rparr>) = playerDead s"
  by (simp add: playerDead_def split: option.splits)

lemma playerDead_logEvents [simp]: "playerDead (logEvents evs s) = playerDead s"
  by (simp add: playerDead_def split: option.splits)

lemma checkForPlayerDeath_eq:
  "playerEntity s = Some player \<Longrightarrow> cPlayerControlled player = Some playerState \<Longrightarrow>
   checkForPlayerDeath n C s =
     (if mState playerState = Dead \<and> mHealth (mPlayerModel (mWorld s)) \<le> 0
      then restartLevel n C s else Inr s)"
  by (simp add: checkForPlayerDeath.simps)

lemma checkForPlayerDeath_Inr:
  assumes "checkForPlayerDeath n C s = Inr s'"
  shows "(\<not> playerDead s \<and> s' = s) \<or> (playerDead s \<and> restartLevel n C s = Inr s')"
  using assms
  by (auto simp: checkForPlayerDeath.simps playerDead_def Let_def split: option.splits if_splits)

lemma restartLevel_Inr:
  assumes "restartLevel n C s = Inr s'"
  shows "\<exists>m s2. n = Suc m \<and> updateAndRender m C 0 (resetLevel C s) = Inr s2
           \<and> s' = logEvents [FadeInScreen] s2"
  using assms by (cases n) (auto split: sum.splits)

lemma updateAndRender_cases [consumes 2, case_names alive restart]:
  assumes "updateAndRender n C dt s = Inr s'" and "\<not> mLevelFinished s"
  obtains
    (alive) s1 where "renderFrame C dt (updateSystems C dt s) = Inr s1"
      and "\<not> playerDead s1" and "checkForLevelExitReached C s1 = Inr s'"
  | (restart) s1 m s2 where "renderFrame C dt (updateSystems C dt s) = Inr s1"
      and "playerDead s1" and "n = Suc m"
      and "updateAndRender m C 0 (resetLevel C s1) = Inr s2"
      and "checkForLevelExitReached C (logEvents [FadeInScreen] s2) = Inr s'"
proof -
  from assms obtain s1 sd where
    s1: "renderFrame C dt (updateSystems C dt s) = Inr s1"
    and sd: "checkForPlayerDeath n C s1 = Inr sd"
    and ex: "checkForLevelExitReached C sd = Inr s'"
    by (auto simp: updateAndRender.simps split: sum.splits)
  from checkForPlayerDeath_Inr [OF sd] show thesis
  proof
    assume "\<not> playerDead s1 \<and> sd = s1"
    with s1 ex show thesis by (auto intro: alive)
  next
    assume d: "playerDead s1 \<and> restartLevel n C s1 = Inr sd"
    with restartLevel_Inr obtain m s2 where "n = Suc m"
      "updateAndRender m C 0 (resetLevel C s1) = Inr s2" "sd = logEvents [FadeInScreen] s2"
      by blast
    with s1 d ex show thesis by (auto intro: restart)
  qed
qed

lemma resetLevel_fields:
  "mPlayerInputs (resetLevel C s) = mPlayerInputs s"
  "mInitialActors (resetLevel C s) = mInitialActors s"
  "mMapAtLevelStart (resetLevel C s) = mMapAtLevelStart s"
  "mPlayerModelAtLevelStart (resetLevel C s) = mPlayerModelAtLevelStart s"
  "mLevelFinished (resetLevel C s) = mLevelFinished s"
  "mShowDebugText (resetLevel C s) = mShowDebugText s"
  "mDebuggingSystem (resetLevel C s) = mDebuggingSystem s"
  "mTrace (resetLevel C s) = mTrace s @ [FadeOutScreen]"
  by (simp_all add: resetLevel_def logEvents_def Let_def split: prod.split)

lemma resetLevel_world:
  "mMap (mWorld (resetLevel C s)) = mMapAtLevelStart s"
  "mPlayerModel (mWorld (resetLevel C s)) = mPlayerModelAtLevelStart s"
  "(entities (mWorld (resetLevel C s)), mPlayerEntity (resetLevel C s)) =
     createEntitiesForLevel C (mInitialActors s) []"
  "mScrollOffset (mWorld (resetLevel C s)) = mScrollOffset (mWorld s)"
  "mSystemState (mWorld (resetLevel C s)) = mSystemState (mWorld s)"
  by (simp_all add: resetLevel_def logEvents_def Let_def split: prod.split)

lemma mTrace_steps [simp]:
  "mTrace (logEvents evs s) = mTrace s @ evs"
  "mTrace (setSystemInput C sys s) = mTrace s @ [SetInputState sys (mPlayerInputs s)]"
  "mTrace (updateSystem C sys dt s) = mTrace s @ [SystemUpdate sys dt]"
  "mTrace (updateDebuggingSystem C dt s) =
     mTrace s @ SystemUpdate Debugging dt
       # DebuggingSystem_update (externals C) (mDebuggingSystem s) (mScrollOffset (mWorld s))
           (mMap (mWorld s)) (entities (mWorld s))"
  "mTrace (updateHud C dt s) = mTrace s @ [HudUpdateAndRender dt]"
  by (simp_all add: logEvents_def setSystemInput_def updateSystem_def updateDebuggingSystem_def
        updateHud_def split: prod.split)

lemma mPlayerInputs_steps [simp]:
  "mPlayerInputs (logEvents evs s) = mPlayerInputs s"
  "mPlayerInputs (setSystemInput C sys s) = mPlayerInputs s"
  "mPlayerInputs (updateSystem C sys dt s) = mPlayerInputs s"
  by (simp_all add: logEvents_def setSystemInput_def updateSystem_def)

lemma mTrace_updateSystems:
  "mTrace (updateSystems C dt s) =
     mTrace s @
       [SetInputState Attack (mPlayerInputs s), SetInputState Elevator (mPlayerInputs s),
        SystemUpdate Elevator dt, SystemUpdate PlayerMovement dt, SystemUpdate Attack dt,
        SystemUpdate PlayerInteraction dt, SystemUpdate SecurityCamera dt,
        SystemUpdate Physics dt, SystemUpdate PlayerDamage dt,
        SystemUpdate DamageInfliction dt, SystemUpdate Animation dt,
        SystemUpdate MapScroll dt]"
  by (simp add: updateSystems_def Let_def)

lemma mTrace_showDebugText:
  "showDebugText s = Inr s' \<Longrightarrow> \<exists>a b c. mTrace s' = mTrace s @ [ShowDebugText a b c]"
  by (auto simp: showDebugText_def split: option.splits)

lemma mTrace_renderFrame:
  assumes "renderFrame C dt s = Inr s'"
  shows "\<exists>text. mTrace s' =
     mTrace s @ [BindRenderTarget, SystemUpdate Rendering dt, SystemUpdate Debugging dt]
       @ debugEvents C (updateSystem C Rendering dt s)
       @ [HudUpdateAndRender dt, UnbindRenderTarget, RenderTargetRender] @ text
     \<and> (text = [] \<or> (\<exists>a b c. text = [ShowDebugText a b c]))"
proof (cases "mShowDebugText s")
  case False
  have "unchanged s (logEvents [UnbindRenderTarget, RenderTargetRender]
       (updateHud C dt (updateDebuggingSystem C dt
          (updateSystem C Rendering dt (logEvents [BindRenderTarget] s)))))"
    by simp
  with False have "\<not> mShowDebugText (logEvents [UnbindRenderTarget, RenderTargetRender]
       (updateHud C dt (updateDebuggingSystem C dt
          (updateSystem C Rendering dt (logEvents [BindRenderTarget] s)))))"
    by (simp add: unchanged_def)
  with assms show ?thesis
    by (auto simp: renderFrame_def renderPass_def Let_def debugEvents_def updateSystem_def logEvents_def
        updateDebuggingSystem_def updateHud_def split: prod.splits)
next
  case True
  have "unchanged s (logEvents [UnbindRenderTarget, RenderTargetRender]
       (updateHud C dt (updateDebuggingSystem C dt
          (updateSystem C Rendering dt (logEvents [BindRenderTarget] s)))))"
    by simp
  with True have "mShowDebugText (logEvents [UnbindRenderTarget, RenderTargetRender]
       (updateHud C dt (updateDebuggingSystem C dt
          (updateSystem C Rendering dt (logEvents [BindRenderTarget] s)))))"
    by (simp add: unchanged_def)
  with assms obtain a b c where "mTrace s' = mTrace (logEvents [UnbindRenderTarget, RenderTargetRender]
       (updateHud C dt (updateDebuggingSystem C dt
          (updateSystem C Rendering dt (logEvents [BindRenderTarget] s))))) @ [ShowDebugText a b c]"
    by (auto simp: renderFrame_def renderPass_def Let_def dest!: mTrace_showDebugText)
  then show ?thesis
    by (auto simp: debugEvents_def updateSystem_def logEvents_def
        updateDebuggingSystem_def updateHud_def split: prod.splits)
qed

lemma stable_refl: "stable s s"
  by (simp add: stable_def)

lemma stable_trans: "stable s t \<Longrightarrow> stable t u \<Longrightarrow> stable s u"
  by (auto simp: stable_def)

lemma unchanged_stable:
  "unchanged s s' \<Longrightarrow> mTrace s' = mTrace s @ evs \<Longrightarrow> stable s s'"
  by (simp add: unchanged_def stable_def)

lemma stable_resetLevel: "stable s (resetLevel C s)"
  by (simp add: stable_def resetLevel_fields)

lemma stable_logEvents: "stable s (logEvents evs s)"
  by (simp add: stable_def logEvents_def)

lemma stable_checkForLevelExitReached:
  "checkForLevelExitReached C s = Inr s' \<Longrightarrow> stable s s'"
  by (auto simp: stable_def dest!: checkForLevelExitReached_flag)

lemma frame_unchanged:
  assumes "renderFrame C dt (updateSystems C dt s) = Inr s1"
  shows "unchanged s s1"
  using unchanged_renderFrame [OF assms, of s] by simp

lemma frame_stable:
  assumes "renderFrame C dt (updateSystems C dt s) = Inr s1"
  shows "stable s s1"
proof -
  from mTrace_renderFrame [OF assms] obtain evs where
    "mTrace s1 = mTrace (updateSystems C dt s) @ evs" by auto
  then have "\<exists>evs. mTrace s1 = mTrace s @ evs"
    by (simp add: mTrace_updateSystems)
  with frame_unchanged [OF assms] show ?thesis
    by (auto intro: unchanged_stable)
qed

lemma stable_updateAndRender:
  "updateAndRender n C dt s = Inr s' \<Longrightarrow> stable s s'"
proof (induction n arbitrary: dt s s')
  case 0
  show ?case
  proof (cases "mLevelFinished s")
    case True
    with 0 show ?thesis by (simp add: updateAndRender.simps stable_refl)
  next
    case False
    from 0 False show ?thesis
    proof (cases rule: updateAndRender_cases)
      case (alive s1)
      then show ?thesis
        by (blast intro: stable_trans frame_stable stable_checkForLevelExitReached)
    next
      case (restart s1 m s2)
      then show ?thesis by simp
    qed
  qed
next
  case (Suc n)
  show ?case
  proof (cases "mLevelFinished s")
    case True
    with Suc.prems show ?thesis by (simp add: updateAndRender.simps stable_refl)
  next
    case False
    from Suc.prems False show ?thesis
    proof (cases rule: updateAndRender_cases)
      case (alive s1)
      then show ?thesis
        by (blast intro: stable_trans frame_stable stable_checkForLevelExitReached)
    next
      case (restart s1 m s2)
      then have "stable (resetLevel C s1) s2" using Suc.IH by simp
      then have "stable s1 (logEvents [FadeInScreen] s2)"
        by (blast intro: stable_trans stable_resetLevel stable_logEvents)
      with restart show ?thesis
        by (blast intro: stable_trans frame_stable stable_checkForLevelExitReached)
    qed
  qed
qed

lemma stable_restartLevel: "restartLevel n C s = Inr s' \<Longrightarrow> stable s s'"
  by (blast dest: restartLevel_Inr stable_updateAndRender
        intro: stable_trans stable_resetLevel stable_logEvents)

lemma updateAndRender_not_dead:
  "updateAndRender n C dt s = Inr s' \<Longrightarrow> \<not> mLevelFinished s \<Longrightarrow> \<not> playerDead s'"
proof (induction n arbitrary: dt s s')
  case 0
  then show ?case
  proof (cases rule: updateAndRender_cases)
    case (alive s1)
    then show ?thesis by (auto dest!: checkForLevelExitReached_flag)
  next
    case (restart s1 m s2)
    then show ?thesis by simp
  qed
next
  case (Suc n)
  from Suc.prems show ?case
  proof (cases rule: updateAndRender_cases)
    case (alive s1)
    then show ?thesis by (auto dest!: checkForLevelExitReached_flag)
  next
    case (restart s1 m s2)
    from frame_unchanged [OF restart(1)] Suc.prems(2)
    have "\<not> mLevelFinished (resetLevel C s1)"
      by (simp add: unchanged_def resetLevel_fields)
    with restart Suc.IH have "\<not> playerDead s2" by simp
    with restart(5) show ?thesis by (auto dest!: checkForLevelExitReached_flag)
  qed
qed

text \<open>The bound on the restart depth does not influence a result: a call that returns
  with some bound returns the same state with every larger bound.\<close>

lemma updateAndRender_deeper_bound:
  "updateAndRender n C dt s = Inr s' \<Longrightarrow> n \<le> m \<Longrightarrow> updateAndRender m C dt s = Inr s'"
proof (induction n arbitrary: m dt s s')
  case 0
  show ?case
  proof (cases "mLevelFinished s")
    case True
    with 0 show ?thesis by (simp add: updateAndRender.simps)
  next
    case False
    from "0.prems"(1) False show ?thesis
    proof (cases rule: updateAndRender_cases)
      case (alive s1)
      from alive(2) have "checkForPlayerDeath m C s1 = Inr s1"
        by (auto simp: checkForPlayerDeath.simps playerDead_def Let_def split: option.splits)
           (use alive(1) "0.prems"(1) False in
             \<open>auto simp: updateAndRender.simps checkForPlayerDeath.simps split: option.splits sum.splits\<close>)
      with alive False show ?thesis by (simp add: updateAndRender.simps)
    next
      case (restart s1 k s2)
      then show ?thesis by simp
    qed
  qed
next
  case (Suc n)
  show ?case
  proof (cases "mLevelFinished s")
    case True
    with Suc.prems show ?thesis by (simp add: updateAndRender.simps)
  next
    case False
    from Suc.prems(1) False show ?thesis
    proof (cases rule: updateAndRender_cases)
      case (alive s1)
      from alive(2) have "checkForPlayerDeath m C s1 = Inr s1"
        by (auto simp: checkForPlayerDeath.simps playerDead_def Let_def split: option.splits)
           (use alive(1) Suc.prems(1) False in
             \<open>auto simp: updateAndRender.simps checkForPlayerDeath.simps split: option.splits sum.splits\<close>)
      with alive False show ?thesis by (simp add: updateAndRender.simps)
    next
      case (restart s1 k s2)
      from Suc.prems(2) obtain m' where m: "m = Suc m'" "n \<le> m'" by (cases m) auto
      from restart(3,4) have "updateAndRender n C 0 (resetLevel C s1) = Inr s2" by simp
      from Suc.IH [OF this m(2)] have "restartLevel m C s1 = Inr (logEvents [FadeInScreen] s2)"
        by (simp add: m(1))
      moreover from restart(2) have "checkForPlayerDeath m C s1 = restartLevel m C s1"
        by (auto simp: checkForPlayerDeath.simps playerDead_def Let_def split: option.splits)
      ultimately show ?thesis using restart(1,5) False
        by (simp add: updateAndRender.simps)
    qed
  qed
qed

lemma handleEvent_keeps:
  "mLevelFinished (handleEvent event s) = mLevelFinished s"
  "mWorld (handleEvent event s) = mWorld s"
  "mTrace (handleEvent event s) = mTrace s"
  by (simp_all add: handleEvent_def Let_def split: SDL_Keycode.splits)

lemma runCalls_finished:
  "mLevelFinished s \<Longrightarrow>
     \<exists>s'. runCalls n C calls s = Inr s' \<and> mLevelFinished s' \<and> mWorld s' = mWorld s
          \<and> mTrace s' = mTrace s"
proof (induction calls arbitrary: s)
  case Nil
  then show ?case by simp
next
  case (Cons c calls)
  show ?case
  proof (cases c)
    case (HandleEvent event)
    from Cons.IH [of "handleEvent event s"] Cons.prems HandleEvent show ?thesis
      by (simp add: handleEvent_keeps)
  next
    case (UpdateAndRender dt)
    with Cons show ?thesis by (simp add: updateAndRender.simps)
  qed
qed

lemma runCalls_append:
  "runCalls n C (xs @ ys) s =
     (case runCalls n C xs s of Inl err \<Rightarrow> Inl err | Inr s' \<Rightarrow> runCalls n C ys s')"
proof (induction xs arbitrary: s)
  case Nil
  then show ?case by simp
next
  case (Cons c xs)
  then show ?case by (cases c) (simp_all split: sum.splits)
qed

lemma IngameMode_new_not_finished:
  "IngameMode_new C episode levelNumber loadLevel playerModel inputs scrollOffset debugging systems
     playerPositionOverride = Inr s0 \<Longrightarrow> \<not> mLevelFinished s0"
  by (auto simp: IngameMode_new_def IngameMode_loaded_def Let_def
        split: prod.splits option.splits sum.splits)

lemma systemUpdatesOf_Cons: "systemUpdatesOf (ev # evs) = systemUpdatesOf [ev] @ systemUpdatesOf evs"
  by (cases ev) simp_all

lemma systemUpdatesOf_append [simp]:
  "systemUpdatesOf (xs @ ys) = systemUpdatesOf xs @ systemUpdatesOf ys"
proof (induction xs)
  case Nil
  then show ?case by simp
next
  case (Cons ev xs)
  then show ?case
    using systemUpdatesOf_Cons [of ev "xs @ ys"] systemUpdatesOf_Cons [of ev xs] by simp
qed

lemma systemUpdatesOf_concat_map:
  "(\<And>x. systemUpdatesOf (f x) = []) \<Longrightarrow> systemUpdatesOf (concat (map f xs)) = []"
  by (induction xs) simp_all

lemma systemUpdatesOf_map:
  "(\<And>x. systemUpdatesOf [f x] = []) \<Longrightarrow> systemUpdatesOf (map f xs) = []"
proof (induction xs)
  case Nil
  then show ?case by simp
next
  case (Cons x xs)
  then show ?case using systemUpdatesOf_Cons [of "f x" "map f xs"] by simp
qed

lemma systemUpdatesOf_solidEdgeLines [simp]:
  "systemUpdatesOf (solidEdgeLines cd l t r b) = []"
  by (simp add: solidEdgeLines_def)

lemma systemUpdatesOf_collisionTile [simp]:
  "systemUpdatesOf (collisionTile X cameraPos m x y) = []"
  by (simp add: collisionTile_def Let_def)

lemma systemUpdatesOf_worldCollisionPass [simp]:
  "systemUpdatesOf (worldCollisionPass X cameraPos m) = []"
  unfolding worldCollisionPass_def
  by (intro systemUpdatesOf_concat_map) simp

lemma systemUpdatesOf_entityBoxes [simp]: "systemUpdatesOf (entityBoxes X cameraPos es) = []"
  unfolding entityBoxes_def
  by (intro systemUpdatesOf_concat_map) (simp split: option.splits)

lemma systemUpdatesOf_linkBoxes [simp]: "systemUpdatesOf (linkBoxes X cameraPos es) = []"
  unfolding linkBoxes_def
  by (intro systemUpdatesOf_concat_map) (simp split: option.splits)

lemma systemUpdatesOf_gridPass [simp]: "systemUpdatesOf (gridPass X) = []"
  by (simp add: gridPass_def Let_def systemUpdatesOf_map)

lemma systemUpdatesOf_DebuggingSystem_update [simp]:
  "systemUpdatesOf (DebuggingSystem_update X d cameraPos m es) = []"
  by (simp add: DebuggingSystem_update_def)

lemma newEvents_append: "mTrace s' = mTrace s @ evs \<Longrightarrow> newEvents s s' = evs"
  by (simp add: newEvents_def)

lemma frame_systemUpdates:
  assumes "renderFrame C dt (updateSystems C dt s) = Inr s1"
  shows "\<exists>evs. mTrace s1 = mTrace s @ evs \<and> systemUpdatesOf evs = frameOrder dt"
proof -
  from mTrace_renderFrame [OF assms] obtain dtext where
    t: "mTrace s1 = mTrace (updateSystems C dt s)
          @ [BindRenderTarget, SystemUpdate Rendering dt, SystemUpdate Debugging dt]
          @ debugEvents C (updateSystem C Rendering dt (updateSystems C dt s))
          @ [HudUpdateAndRender dt, UnbindRenderTarget, RenderTargetRender] @ dtext"
    and dtext: "dtext = [] \<or> (\<exists>a b c. dtext = [ShowDebugText a b c])"
    by blast
  from dtext have u: "systemUpdatesOf dtext = []" by auto
  let ?evs = "[SetInputState Attack (mPlayerInputs s), SetInputState Elevator (mPlayerInputs s),
        SystemUpdate Elevator dt, SystemUpdate PlayerMovement dt, SystemUpdate Attack dt,
        SystemUpdate PlayerInteraction dt, SystemUpdate SecurityCamera dt,
        SystemUpdate Physics dt, SystemUpdate PlayerDamage dt,
        SystemUpdate DamageInfliction dt, SystemUpdate Animation dt,
        SystemUpdate MapScroll dt]
      @ [BindRenderTarget, SystemUpdate Rendering dt, SystemUpdate Debugging dt]
      @ debugEvents C (updateSystem C Rendering dt (updateSystems C dt s))
      @ [HudUpdateAndRender dt, UnbindRenderTarget, RenderTargetRender] @ dtext"
  have "mTrace s1 = mTrace s @ ?evs"
    using t by (simp add: mTrace_updateSystems)
  moreover have "systemUpdatesOf ?evs = frameOrder dt"
    using u by (simp add: frameOrder_def debugEvents_def)
  ultimately show ?thesis by blast
qed

lemma concat_replicate_Suc: "xs @ concat (replicate k xs) = concat (replicate (Suc k) xs)"
  by simp

lemma updateAndRender_systemUpdates:
  "updateAndRender n C dt s = Inr s' \<Longrightarrow> \<not> mLevelFinished s \<Longrightarrow>
     \<exists>evs k. mTrace s' = mTrace s @ evs
       \<and> systemUpdatesOf evs = frameOrder dt @ concat (replicate k (frameOrder 0))"
proof (induction n arbitrary: dt s s')
  case 0
  then show ?case
  proof (cases rule: updateAndRender_cases)
    case (alive s1)
    from frame_systemUpdates [OF alive(1)] obtain evs where
      "mTrace s1 = mTrace s @ evs" "systemUpdatesOf evs = frameOrder dt" by blast
    moreover from alive(3) have "mTrace s' = mTrace s1"
      by (auto dest!: checkForLevelExitReached_flag)
    ultimately have "mTrace s' = mTrace s @ evs
       \<and> systemUpdatesOf evs = frameOrder dt @ concat (replicate 0 (frameOrder 0))" by simp
    then show ?thesis by blast
  next
    case (restart s1 m s2)
    then show ?thesis by simp
  qed
next
  case (Suc n)
  from Suc.prems show ?case
  proof (cases rule: updateAndRender_cases)
    case (alive s1)
    from frame_systemUpdates [OF alive(1)] obtain evs where
      "mTrace s1 = mTrace s @ evs" "systemUpdatesOf evs = frameOrder dt" by blast
    moreover from alive(3) have "mTrace s' = mTrace s1"
      by (auto dest!: checkForLevelExitReached_flag)
    ultimately have "mTrace s' = mTrace s @ evs
       \<and> systemUpdatesOf evs = frameOrder dt @ concat (replicate 0 (frameOrder 0))" by simp
    then show ?thesis by blast
  next
    case (restart s1 m s2)
    from frame_systemUpdates [OF restart(1)] obtain evs where
      e1: "mTrace s1 = mTrace s @ evs" "systemUpdatesOf evs = frameOrder dt" by blast
    from frame_unchanged [OF restart(1)] Suc.prems(2)
    have nf: "\<not> mLevelFinished (resetLevel C s1)"
      by (simp add: unchanged_def resetLevel_fields)
    from restart(3,4) have "updateAndRender n C 0 (resetLevel C s1) = Inr s2" by simp
    from Suc.IH [OF this nf] obtain evs2 k where
      e2: "mTrace s2 = mTrace (resetLevel C s1) @ evs2"
        "systemUpdatesOf evs2 = frameOrder 0 @ concat (replicate k (frameOrder 0))" by blast
    from restart(5) have "mTrace s' = mTrace s2 @ [FadeInScreen]"
      by (auto dest!: checkForLevelExitReached_flag)
    with e1 e2 have "mTrace s' = mTrace s @ (evs @ [FadeOutScreen] @ evs2 @ [FadeInScreen])"
      by (simp add: resetLevel_fields)
    moreover from e1 e2 have "systemUpdatesOf (evs @ [FadeOutScreen] @ evs2 @ [FadeInScreen])
        = frameOrder dt @ concat (replicate (Suc k) (frameOrder 0))"
      by simp
    ultimately show ?thesis by blast
  qed
qed

lemma playerDead_eq:
  "playerEntity s = Some player \<Longrightarrow> cPlayerControlled player = Some playerState \<Longrightarrow>
   playerDead s = (mState playerState = Dead \<and> mHealth (mPlayerModel (mWorld s)) \<le> 0)"
  by (simp add: playerDead_def)

lemma playerDead_handleEvent [simp]: "playerDead (handleEvent event s) = playerDead s"
proof -
  have "mWorld (handleEvent event s) = mWorld s" by (rule handleEvent_keeps)
  moreover have "mPlayerEntity (handleEvent event s) = mPlayerEntity s"
    by (simp add: handleEvent_def Let_def split: SDL_Keycode.splits)
  ultimately show ?thesis
    by (simp add: playerDead_def playerEntity_def split: option.splits)
qed

lemma runCalls_no_pending_restart:
  "runCalls n C calls s = Inr s' \<Longrightarrow> (mLevelFinished s \<longrightarrow> \<not> playerDead s) \<Longrightarrow>
     mLevelFinished s' \<longrightarrow> \<not> playerDead s'"
proof (induction calls arbitrary: s)
  case Nil
  then show ?case by simp
next
  case (Cons c calls)
  show ?case
  proof (cases c)
    case (HandleEvent event)
    with Cons.prems have "runCalls n C calls (handleEvent event s) = Inr s'" by simp
    moreover from Cons.prems(2)
    have "mLevelFinished (handleEvent event s) \<longrightarrow> \<not> playerDead (handleEvent event s)"
      by (simp add: handleEvent_keeps)
    ultimately show ?thesis by (rule Cons.IH)
  next
    case (UpdateAndRender dt)
    with Cons.prems obtain t where t: "updateAndRender n C dt s = Inr t"
      and rest: "runCalls n C calls t = Inr s'"
      by (auto split: sum.splits)
    have "mLevelFinished t \<longrightarrow> \<not> playerDead t"
    proof (cases "mLevelFinished s")
      case True
      with t have "t = s" by (simp add: updateAndRender.simps)
      with Cons.prems(2) show ?thesis by simp
    next
      case False
      with t show ?thesis by (simp add: updateAndRender_not_dead)
    qed
    with rest show ?thesis by (rule Cons.IH)
  qed
qed

section \<open>The concrete level, evaluated\<close>

lemma exampleMode_simps:
  "mLevelFinished (exampleMode pos st health spawn inputs finished trace) = finished"
  "mPlayerEntity (exampleMode pos st health spawn inputs finished trace) = 0"
  "mPlayerInputs (exampleMode pos st health spawn inputs finished trace) = inputs"
  "mShowDebugText (exampleMode pos st health spawn inputs finished trace) = False"
  "mDebuggingSystem (exampleMode pos st health spawn inputs finished trace) = debugOff"
  "mTrace (exampleMode pos st health spawn inputs finished trace) = trace"
  "mInitialActors (exampleMode pos st health spawn inputs finished trace) =
     [examplePlayer spawn Standing, exampleExit]"
  "mMapAtLevelStart (exampleMode pos st health spawn inputs finished trace) = exampleMap"
  "mPlayerModelAtLevelStart (exampleMode pos st health spawn inputs finished trace) =
     \<lparr>mHealth = 9\<rparr>"
  "mWorld (exampleMode pos st health spawn inputs finished trace) =
     \<lparr>entities = [examplePlayer pos st, exampleExit], mMap = exampleMap,
      mPlayerModel = \<lparr>mHealth = health\<rparr>, mScrollOffset = \<lparr>vec_x = 0, vec_y = 0\<rparr>,
      mSystemState = ()\<rparr>"
  by (simp_all add: exampleMode_def)

lemma example_logEvents:
  "logEvents evs (exampleMode pos st health spawn inputs finished trace) =
     exampleMode pos st health spawn inputs finished (trace @ evs)"
  by (simp add: logEvents_def exampleMode_def)

lemma example_set_finished:
  "(exampleMode pos st health spawn inputs finished trace)\<lparr>mLevelFinished := b\<rparr> =
     exampleMode pos st health spawn inputs b trace"
  by (simp add: exampleMode_def)

lemma example_frame:
  "renderFrame exampleCollaborators dt
     (updateSystems exampleCollaborators dt
        (exampleMode pos st health spawn inputs finished trace)) =
   Inr (exampleMode pos st health spawn inputs finished
          (trace @ exampleFrameEvents inputs dt))"
  by (simp add: renderFrame_def renderPass_def updateSystems_def Let_def setSystemInput_def updateSystem_def
        updateDebuggingSystem_def updateHud_def logEvents_def exampleCollaborators_def
        exampleFrameEvents_def DebuggingSystem_update_def debugOff_def exampleMode_def)

lemma example_playerEntity:
  "playerEntity (exampleMode pos st health spawn inputs finished trace) =
     Some (examplePlayer pos st)"
  by (simp add: playerEntity_def exampleMode_def examplePlayer_def)

lemma example_box_at_exit:
  "list_ex (atLevelExit (externals exampleCollaborators)
       (toWorldSpace (externals exampleCollaborators)
          \<lparr>topLeft = \<lparr>vec_x = 0, vec_y = 0\<rparr>, rectSize = \<lparr>width = 3, height = 5\<rparr>\<rparr>
          \<lparr>vec_x = px, vec_y = py\<rparr>))
     [examplePlayer pos st, exampleExit]
   = (py \<le> 5 \<and> 10 \<le> int32 (px + 3) \<and> px \<le> 10)"
  by (auto simp: atLevelExit_def exampleExit_def examplePlayer_def
        exampleCollaborators_def exampleExternals_def add.commute)

lemma example_exit_check:
  "checkForLevelExitReached exampleCollaborators
     (exampleMode \<lparr>vec_x = px, vec_y = py\<rparr> st health spawn inputs finished trace) =
   Inr (exampleMode \<lparr>vec_x = px, vec_y = py\<rparr> st health spawn inputs
          (finished \<or> py \<le> 5 \<and> 10 \<le> int32 (px + 3) \<and> px \<le> 10) trace)"
proof -
  let ?s = "exampleMode \<lparr>vec_x = px, vec_y = py\<rparr> st health spawn inputs finished trace"
  have each: "eachTriggerWithPosition (levelExitTrigger exampleCollaborators) es ?s =
     Inr (?s\<lparr>mLevelFinished := mLevelFinished ?s
            \<or> list_ex (atLevelExit (externals exampleCollaborators)
                 (toWorldSpace (externals exampleCollaborators)
                    \<lparr>topLeft = \<lparr>vec_x = 0, vec_y = 0\<rparr>, rectSize = \<lparr>width = 3, height = 5\<rparr>\<rparr>
                    \<lparr>vec_x = px, vec_y = py\<rparr>)) es\<rparr>)" for es
    by (rule eachTrigger_exact [OF example_playerEntity]) (simp_all add: examplePlayer_def)
  have es: "entities (mWorld ?s) = [examplePlayer \<lparr>vec_x = px, vec_y = py\<rparr> st, exampleExit]"
    by (simp add: exampleMode_simps)
  have nf: "mLevelFinished ?s = finished"
    by (simp add: exampleMode_simps)
  show ?thesis
    unfolding checkForLevelExitReached_def es
    by (simp only: each example_box_at_exit nf example_set_finished)
qed

lemma example_resetLevel:
  "resetLevel exampleCollaborators (exampleMode pos st health spawn inputs finished trace) =
     exampleMode spawn Standing 9 spawn inputs finished (trace @ [FadeOutScreen])"
  by (simp add: resetLevel_def Let_def logEvents_def exampleCollaborators_def exampleMode_def)

lemma example_death_check:
  "checkForPlayerDeath n exampleCollaborators
     (exampleMode pos st health spawn inputs finished trace) =
   (if st = Dead \<and> health \<le> 0
    then restartLevel n exampleCollaborators
           (exampleMode pos st health spawn inputs finished trace)
    else Inr (exampleMode pos st health spawn inputs finished trace))"
  by (simp add: checkForPlayerDeath_eq [OF example_playerEntity] examplePlayer_def
        exampleMode_simps)

lemma example_update_alive:
  assumes "\<not> (st = Dead \<and> health \<le> 0)"
  shows "updateAndRender n exampleCollaborators dt
     (exampleMode \<lparr>vec_x = px, vec_y = py\<rparr> st health spawn inputs False trace) =
   Inr (exampleMode \<lparr>vec_x = px, vec_y = py\<rparr> st health spawn inputs
          (py \<le> 5 \<and> 10 \<le> int32 (px + 3) \<and> px \<le> 10) (trace @ exampleFrameEvents inputs dt))"
proof -
  have d: "checkForPlayerDeath n exampleCollaborators
      (exampleMode \<lparr>vec_x = px, vec_y = py\<rparr> st health spawn inputs False t) =
      Inr (exampleMode \<lparr>vec_x = px, vec_y = py\<rparr> st health spawn inputs False t)" for t
    using assms by (auto simp: example_death_check)
  show ?thesis
    by (subst updateAndRender.simps)
       (simp only: exampleMode_simps example_frame d example_exit_check if_False sum.case
          simp_thms)
qed

lemma example_restart:
  "restartLevel (Suc n) exampleCollaborators
     (exampleMode pos st health \<lparr>vec_x = sx, vec_y = sy\<rparr> inputs False trace) =
   Inr (exampleMode \<lparr>vec_x = sx, vec_y = sy\<rparr> Standing 9 \<lparr>vec_x = sx, vec_y = sy\<rparr> inputs
          (sy \<le> 5 \<and> 10 \<le> int32 (sx + 3) \<and> sx \<le> 10)
          (trace @ [FadeOutScreen] @ exampleFrameEvents inputs 0 @ [FadeInScreen]))"
proof -
  have "updateAndRender n exampleCollaborators 0
     (exampleMode \<lparr>vec_x = sx, vec_y = sy\<rparr> Standing 9 \<lparr>vec_x = sx, vec_y = sy\<rparr> inputs False
        (trace @ [FadeOutScreen])) =
     Inr (exampleMode \<lparr>vec_x = sx, vec_y = sy\<rparr> Standing 9 \<lparr>vec_x = sx, vec_y = sy\<rparr> inputs
          (sy \<le> 5 \<and> 10 \<le> int32 (sx + 3) \<and> sx \<le> 10)
          ((trace @ [FadeOutScreen]) @ exampleFrameEvents inputs 0))"
    by (rule example_update_alive) simp
  then show ?thesis
    by (simp add: example_resetLevel example_logEvents)
qed

lemma example_update_dead:
  assumes "health \<le> 0"
  shows "updateAndRender (Suc n) exampleCollaborators dt
     (exampleMode pos Dead health \<lparr>vec_x = sx, vec_y = sy\<rparr> inputs False trace) =
   Inr (exampleMode \<lparr>vec_x = sx, vec_y = sy\<rparr> Standing 9 \<lparr>vec_x = sx, vec_y = sy\<rparr> inputs
          (sy \<le> 5 \<and> 10 \<le> int32 (sx + 3) \<and> sx \<le> 10)
          (trace @ exampleFrameEvents inputs dt @ [FadeOutScreen]
             @ exampleFrameEvents inputs 0 @ [FadeInScreen]))"
proof -
  have d: "checkForPlayerDeath (Suc n) exampleCollaborators
      (exampleMode pos Dead health \<lparr>vec_x = sx, vec_y = sy\<rparr> inputs False t) =
      restartLevel (Suc n) exampleCollaborators
        (exampleMode pos Dead health \<lparr>vec_x = sx, vec_y = sy\<rparr> inputs False t)" for t
    using assms by (simp add: example_death_check)
  show ?thesis
    by (subst updateAndRender.simps)
       (simp only: exampleMode_simps example_frame d example_restart example_exit_check
          if_False sum.case simp_thms append_assoc)
qed

section \<open>Properties of the in-game mode\<close>

text \<open>
  Claim C6. For every time step, every bound on the restart depth and all collaborators:
  if the level-finished flag is set, \<open>updateAndRender\<close> returns at once with the state it
  was given. The trace is part of the state, so no system is updated, nothing is rendered,
  neither end-of-frame check is made, and no component is looked up.
\<close>

theorem finished_updateAndRender_noop:
  "mLevelFinished s \<Longrightarrow> updateAndRender n C dt s = Inr s"
  by (simp add: updateAndRender.simps)

theorem finished_updateAndRender_noop_witness:
  "mLevelFinished (exampleMode \<lparr>vec_x = 9, vec_y = 5\<rparr> Dead 0 \<lparr>vec_x = 2, vec_y = 5\<rparr> noInputs True [])
   \<and> updateAndRender 3 exampleCollaborators (1 / 60)
        (exampleMode \<lparr>vec_x = 9, vec_y = 5\<rparr> Dead 0 \<lparr>vec_x = 2, vec_y = 5\<rparr> noInputs True [])
      = Inr (exampleMode \<lparr>vec_x = 9, vec_y = 5\<rparr> Dead 0 \<lparr>vec_x = 2, vec_y = 5\<rparr> noInputs True [])"
  using finished_updateAndRender_noop
    [of "exampleMode \<lparr>vec_x = 9, vec_y = 5\<rparr> Dead 0 \<lparr>vec_x = 2, vec_y = 5\<rparr> noInputs True []" 3
        exampleCollaborators "1 / 60"]
  by (simp add: exampleMode_simps)

lemma example_new:
  "IngameMode_new exampleCollaborators 0 0
     exampleLoadLevel
     \<lparr>mHealth = 9\<rparr> noInputs \<lparr>vec_x = 0, vec_y = 0\<rparr> debugOff ()
     (Some \<lparr>vec_x = 9, vec_y = 5\<rparr>) =
   Inr (exampleMode \<lparr>vec_x = 9, vec_y = 5\<rparr> Standing 9 \<lparr>vec_x = 2, vec_y = 5\<rparr> noInputs False
          [FadeOutScreen, PlayMusic ''MENUSNG2.IMF'', ShowLoadingScreen ''LOAD1.MNI'', FadeInScreen,
           PlayMusic ''LEVEL1.IMF''])"
  by (simp add: IngameMode_new_def IngameMode_loaded_def loadingScreenFileName_def
        levelFileName_def to_string_def decimalDigits.simps EPISODE_PREFIXES_def
        exampleLoadLevel_def Let_def exampleCollaborators_def playerEntity_def
        examplePlayer_def exampleExit_def exampleMode_def)

text \<open>
  Claim C4. If, after some calls (\<open>handleEvent\<close>, \<open>updateAndRender\<close>) on an instance, the
  level-finished flag is set, then whatever calls follow all return and the flag is still
  set after them, with the world as it was; a call of \<open>updateAndRender\<close> is without effect
  wherever the entities (the player among them) are put; and the level-exit check itself
  never clears a flag that is set. A newly constructed instance starts with the flag
  cleared: no other way to clear the flag exists.
\<close>

theorem level_finished_sticky:
  "(runCalls n C earlier s0 = Inr s \<and> mLevelFinished s \<longrightarrow>
      (\<exists>s'. runCalls n C (earlier @ later) s0 = Inr s' \<and> mLevelFinished s'
            \<and> mWorld s' = mWorld s)
      \<and> updateAndRender n C dt (s\<lparr>mWorld := w\<rparr>) = Inr (s\<lparr>mWorld := w\<rparr>)
      \<and> (\<forall>s'. checkForLevelExitReached C s = Inr s' \<longrightarrow> mLevelFinished s'))
   \<and> (IngameMode_new C episode levelNumber loadLevel playerModel inputs scrollOffset debugging systems
         playerPositionOverride = Inr s1 \<longrightarrow> \<not> mLevelFinished s1)"
proof (intro conjI impI allI)
  assume a: "runCalls n C earlier s0 = Inr s \<and> mLevelFinished s"
  from runCalls_finished [of s n C later] a obtain s' where
    "runCalls n C later s = Inr s'" "mLevelFinished s'" "mWorld s' = mWorld s" by blast
  with a show "\<exists>s'. runCalls n C (earlier @ later) s0 = Inr s' \<and> mLevelFinished s'
      \<and> mWorld s' = mWorld s"
    by (simp add: runCalls_append)
  from a show "updateAndRender n C dt (s\<lparr>mWorld := w\<rparr>) = Inr (s\<lparr>mWorld := w\<rparr>)"
    by (simp add: updateAndRender.simps)
  fix s'
  assume "checkForLevelExitReached C s = Inr s'"
  with a show "mLevelFinished s'" by (auto dest!: checkForLevelExitReached_flag)
next
  assume "IngameMode_new C episode levelNumber loadLevel playerModel inputs scrollOffset debugging systems
         playerPositionOverride = Inr s1"
  then show "\<not> mLevelFinished s1" by (rule IngameMode_new_not_finished)
qed

theorem level_finished_sticky_witness:
  "runCalls 0 exampleCollaborators [UpdateAndRender (1 / 60)]
     (exampleMode \<lparr>vec_x = 9, vec_y = 5\<rparr> Standing 9 \<lparr>vec_x = 2, vec_y = 5\<rparr> noInputs False [])
   = Inr (exampleMode \<lparr>vec_x = 9, vec_y = 5\<rparr> Standing 9 \<lparr>vec_x = 2, vec_y = 5\<rparr> noInputs True
            (exampleFrameEvents noInputs (1 / 60)))
   \<and> mLevelFinished
       (exampleMode \<lparr>vec_x = 9, vec_y = 5\<rparr> Standing 9 \<lparr>vec_x = 2, vec_y = 5\<rparr> noInputs True
            (exampleFrameEvents noInputs (1 / 60)))
   \<and> levelFinishedAfter
       (runCalls 0 exampleCollaborators
          ([UpdateAndRender (1 / 60)]
           @ [HandleEvent \<lparr>eventType = SDL_KEYDOWN, keysym = SDLK_LEFT\<rparr>,
              UpdateAndRender (1 / 60), UpdateAndRender (1 / 60)])
          (exampleMode \<lparr>vec_x = 9, vec_y = 5\<rparr> Standing 9 \<lparr>vec_x = 2, vec_y = 5\<rparr> noInputs False []))
     = Some True
   \<and> IngameMode_new exampleCollaborators 0 0
       exampleLoadLevel
       \<lparr>mHealth = 9\<rparr> noInputs \<lparr>vec_x = 0, vec_y = 0\<rparr> debugOff ()
       (Some \<lparr>vec_x = 9, vec_y = 5\<rparr>)
     = Inr (exampleMode \<lparr>vec_x = 9, vec_y = 5\<rparr> Standing 9 \<lparr>vec_x = 2, vec_y = 5\<rparr> noInputs False
          [FadeOutScreen, PlayMusic ''MENUSNG2.IMF'', ShowLoadingScreen ''LOAD1.MNI'', FadeInScreen,
           PlayMusic ''LEVEL1.IMF''])
   \<and> mLevelFinished
       (exampleMode \<lparr>vec_x = 9, vec_y = 5\<rparr> Standing 9 \<lparr>vec_x = 2, vec_y = 5\<rparr> noInputs False
          [FadeOutScreen, PlayMusic ''MENUSNG2.IMF'', ShowLoadingScreen ''LOAD1.MNI'', FadeInScreen,
           PlayMusic ''LEVEL1.IMF'']) = False"
proof -
  let ?init = "exampleMode \<lparr>vec_x = 9, vec_y = 5\<rparr> Standing 9 \<lparr>vec_x = 2, vec_y = 5\<rparr> noInputs False []"
  let ?fin = "exampleMode \<lparr>vec_x = 9, vec_y = 5\<rparr> Standing 9 \<lparr>vec_x = 2, vec_y = 5\<rparr> noInputs True
            (exampleFrameEvents noInputs (1 / 60))"
  have h1: "runCalls 0 exampleCollaborators [UpdateAndRender (1 / 60)] ?init = Inr ?fin
      \<and> mLevelFinished ?fin"
    by (simp add: example_update_alive exampleMode_simps)
  note h2 = example_new
  from level_finished_sticky
    [where n = 0 and C = exampleCollaborators and earlier = "[UpdateAndRender (1 / 60)]"
       and ?s0.0 = ?init and s = ?fin
       and later = "[HandleEvent \<lparr>eventType = SDL_KEYDOWN, keysym = SDLK_LEFT\<rparr>,
              UpdateAndRender (1 / 60), UpdateAndRender (1 / 60)]"
       and episode = 0
       and levelNumber = 0 and loadLevel = exampleLoadLevel
       and playerModel = "\<lparr>mHealth = 9\<rparr>" and inputs = noInputs
       and scrollOffset = "\<lparr>vec_x = 0, vec_y = 0\<rparr>" and debugging = debugOff and systems = "()"
       and playerPositionOverride = "Some \<lparr>vec_x = 9, vec_y = 5\<rparr>"
       and ?s1.0 = "exampleMode \<lparr>vec_x = 9, vec_y = 5\<rparr> Standing 9 \<lparr>vec_x = 2, vec_y = 5\<rparr> noInputs False
          [FadeOutScreen, PlayMusic ''MENUSNG2.IMF'', ShowLoadingScreen ''LOAD1.MNI'', FadeInScreen,
           PlayMusic ''LEVEL1.IMF'']"]
    h1 h2
  have "(\<exists>s'. runCalls 0 exampleCollaborators
          ([UpdateAndRender (1 / 60)]
           @ [HandleEvent \<lparr>eventType = SDL_KEYDOWN, keysym = SDLK_LEFT\<rparr>,
              UpdateAndRender (1 / 60), UpdateAndRender (1 / 60)]) ?init = Inr s' \<and> mLevelFinished s')
     \<and> \<not> mLevelFinished (exampleMode \<lparr>vec_x = 9, vec_y = 5\<rparr> Standing 9 \<lparr>vec_x = 2, vec_y = 5\<rparr> noInputs False
          [FadeOutScreen, PlayMusic ''MENUSNG2.IMF'', ShowLoadingScreen ''LOAD1.MNI'', FadeInScreen,
           PlayMusic ''LEVEL1.IMF''])"
    by blast
  then have "levelFinishedAfter
       (runCalls 0 exampleCollaborators
          ([UpdateAndRender (1 / 60)]
           @ [HandleEvent \<lparr>eventType = SDL_KEYDOWN, keysym = SDLK_LEFT\<rparr>,
              UpdateAndRender (1 / 60), UpdateAndRender (1 / 60)]) ?init) = Some True
     \<and> mLevelFinished (exampleMode \<lparr>vec_x = 9, vec_y = 5\<rparr> Standing 9 \<lparr>vec_x = 2, vec_y = 5\<rparr> noInputs False
          [FadeOutScreen, PlayMusic ''MENUSNG2.IMF'', ShowLoadingScreen ''LOAD1.MNI'', FadeInScreen,
           PlayMusic ''LEVEL1.IMF'']) = False"
    by (auto simp: levelFinishedAfter_def)
  with h1 h2 show ?thesis by blast
qed


text \<open>
  Claim C10, amended. Whenever \<open>restartLevel\<close> returns, the pending player input flags, the
  three display flags of the debugging system and the debug-text switch are as they were
  before the call, and a level-finished flag that was set is still set. The flag is not
  among what is left unchanged: \<open>restartLevel\<close> runs \<open>updateAndRender(0)\<close>, whose exit check
  sets the flag when the recreated player stands at a level exit.
\<close>

theorem restartLevel_keeps_inputs_and_debug_switches:
  "restartLevel n C s = Inr s' \<Longrightarrow>
     mPlayerInputs s' = mPlayerInputs s
     \<and> mShowBoundingBoxes (mDebuggingSystem s') = mShowBoundingBoxes (mDebuggingSystem s)
     \<and> mShowWorldCollisionData (mDebuggingSystem s') = mShowWorldCollisionData (mDebuggingSystem s)
     \<and> mShowGrid (mDebuggingSystem s') = mShowGrid (mDebuggingSystem s)
     \<and> mShowDebugText s' = mShowDebugText s
     \<and> (mLevelFinished s \<longrightarrow> mLevelFinished s')"
  by (drule stable_restartLevel) (simp add: stable_def)

theorem restartLevel_keeps_inputs_and_debug_switches_witness:
  "restartLevel (Suc 0) exampleCollaborators
     (exampleMode \<lparr>vec_x = 20, vec_y = 5\<rparr> Dead 0 \<lparr>vec_x = 2, vec_y = 5\<rparr>
        (noInputs\<lparr>mMovingLeft := True\<rparr>) False [])
   = Inr (exampleMode \<lparr>vec_x = 2, vec_y = 5\<rparr> Standing 9 \<lparr>vec_x = 2, vec_y = 5\<rparr>
        (noInputs\<lparr>mMovingLeft := True\<rparr>) False
        ([FadeOutScreen] @ exampleFrameEvents (noInputs\<lparr>mMovingLeft := True\<rparr>) 0
           @ [FadeInScreen]))
   \<and> mMovingLeft (mPlayerInputs
        (exampleMode \<lparr>vec_x = 2, vec_y = 5\<rparr> Standing 9 \<lparr>vec_x = 2, vec_y = 5\<rparr>
          (noInputs\<lparr>mMovingLeft := True\<rparr>) False
          ([FadeOutScreen] @ exampleFrameEvents (noInputs\<lparr>mMovingLeft := True\<rparr>) 0
             @ [FadeInScreen])))
   \<and> mPlayerInputs
        (exampleMode \<lparr>vec_x = 2, vec_y = 5\<rparr> Standing 9 \<lparr>vec_x = 2, vec_y = 5\<rparr>
          (noInputs\<lparr>mMovingLeft := True\<rparr>) False
          ([FadeOutScreen] @ exampleFrameEvents (noInputs\<lparr>mMovingLeft := True\<rparr>) 0
             @ [FadeInScreen]))
      = mPlayerInputs
        (exampleMode \<lparr>vec_x = 20, vec_y = 5\<rparr> Dead 0 \<lparr>vec_x = 2, vec_y = 5\<rparr>
          (noInputs\<lparr>mMovingLeft := True\<rparr>) False [])"
proof -
  have h: "restartLevel (Suc 0) exampleCollaborators
     (exampleMode \<lparr>vec_x = 20, vec_y = 5\<rparr> Dead 0 \<lparr>vec_x = 2, vec_y = 5\<rparr>
        (noInputs\<lparr>mMovingLeft := True\<rparr>) False [])
   = Inr (exampleMode \<lparr>vec_x = 2, vec_y = 5\<rparr> Standing 9 \<lparr>vec_x = 2, vec_y = 5\<rparr>
        (noInputs\<lparr>mMovingLeft := True\<rparr>) False
        ([FadeOutScreen] @ exampleFrameEvents (noInputs\<lparr>mMovingLeft := True\<rparr>) 0
           @ [FadeInScreen]))"
    by (simp only: example_restart append_Nil) simp
  from restartLevel_keeps_inputs_and_debug_switches [OF h] h show ?thesis
    by (simp add: exampleMode_simps noInputs_def)
qed

text \<open>
  The claim as stated fails: in the concrete level with an actor list that creates the
  player at \<open>(9, 5)\<close>, next to the exit trigger at \<open>(10, 5)\<close>, a restart entered with the
  level-finished flag cleared returns with the flag set.
\<close>

theorem restartLevel_sets_level_finished:
  "mLevelFinished
     (exampleMode \<lparr>vec_x = 20, vec_y = 5\<rparr> Dead 0 \<lparr>vec_x = 9, vec_y = 5\<rparr> noInputs False [])
     = False
   \<and> levelFinishedAfter
       (restartLevel (Suc 0) exampleCollaborators
          (exampleMode \<lparr>vec_x = 20, vec_y = 5\<rparr> Dead 0 \<lparr>vec_x = 9, vec_y = 5\<rparr> noInputs False []))
     = Some True"
  by (simp only: example_restart levelFinishedAfter_def exampleMode_simps)
     (simp add: exampleMode_simps)

text \<open>
  Claim C3, amended. In every call of \<open>updateAndRender\<close> that reaches the end-of-frame
  checks (the flag is cleared and the updating and rendering part returns a state), the
  player-death check is made first and the level-exit check second, on the state the death
  check returns (after a restart: on the recreated entities). Neither check is skipped
  because of the outcome of the other: a call that returns has made both.
\<close>

theorem death_check_before_exit_check:
  assumes "\<not> mLevelFinished s" and "renderFrame C dt (updateSystems C dt s) = Inr s1"
  shows "updateAndRender n C dt s =
           (case checkForPlayerDeath n C s1 of
              Inl err \<Rightarrow> Inl err
            | Inr s2 \<Rightarrow> checkForLevelExitReached C s2)
         \<and> (\<forall>s'. updateAndRender n C dt s = Inr s' \<longrightarrow>
               (\<exists>s2. checkForPlayerDeath n C s1 = Inr s2
                     \<and> checkForLevelExitReached C s2 = Inr s'))"
  using assms by (auto simp: updateAndRender.simps split: sum.splits)

theorem death_check_before_exit_check_witness:
  "mLevelFinished
     (exampleMode \<lparr>vec_x = 9, vec_y = 5\<rparr> Dead 0 \<lparr>vec_x = 2, vec_y = 5\<rparr> noInputs False [])
     = False
   \<and> renderFrame exampleCollaborators (1 / 60)
       (updateSystems exampleCollaborators (1 / 60)
          (exampleMode \<lparr>vec_x = 9, vec_y = 5\<rparr> Dead 0 \<lparr>vec_x = 2, vec_y = 5\<rparr> noInputs False []))
     = Inr (exampleMode \<lparr>vec_x = 9, vec_y = 5\<rparr> Dead 0 \<lparr>vec_x = 2, vec_y = 5\<rparr> noInputs False
              (exampleFrameEvents noInputs (1 / 60)))
   \<and> updateAndRender (Suc 0) exampleCollaborators (1 / 60)
       (exampleMode \<lparr>vec_x = 9, vec_y = 5\<rparr> Dead 0 \<lparr>vec_x = 2, vec_y = 5\<rparr> noInputs False [])
     = checkForLevelExitReached exampleCollaborators
         (exampleMode \<lparr>vec_x = 2, vec_y = 5\<rparr> Standing 9 \<lparr>vec_x = 2, vec_y = 5\<rparr> noInputs False
            (exampleFrameEvents noInputs (1 / 60) @ [FadeOutScreen]
               @ exampleFrameEvents noInputs 0 @ [FadeInScreen]))"
proof -
  let ?init = "exampleMode \<lparr>vec_x = 9, vec_y = 5\<rparr> Dead 0 \<lparr>vec_x = 2, vec_y = 5\<rparr> noInputs False []"
  let ?mid = "exampleMode \<lparr>vec_x = 9, vec_y = 5\<rparr> Dead 0 \<lparr>vec_x = 2, vec_y = 5\<rparr> noInputs False
              (exampleFrameEvents noInputs (1 / 60))"
  have h1: "\<not> mLevelFinished ?init" by (simp add: exampleMode_simps)
  have h2: "renderFrame exampleCollaborators (1 / 60)
       (updateSystems exampleCollaborators (1 / 60) ?init) = Inr ?mid"
    by (simp add: example_frame)
  have d: "checkForPlayerDeath (Suc 0) exampleCollaborators ?mid =
      Inr (exampleMode \<lparr>vec_x = 2, vec_y = 5\<rparr> Standing 9 \<lparr>vec_x = 2, vec_y = 5\<rparr> noInputs False
            (exampleFrameEvents noInputs (1 / 60) @ [FadeOutScreen]
               @ exampleFrameEvents noInputs 0 @ [FadeInScreen]))"
    by (simp add: example_death_check example_restart del: restartLevel.simps)
  have "updateAndRender (Suc 0) exampleCollaborators (1 / 60) ?init =
      (case checkForPlayerDeath (Suc 0) exampleCollaborators ?mid of
         Inl err \<Rightarrow> Inl err
       | Inr s2 \<Rightarrow> checkForLevelExitReached exampleCollaborators s2)"
    using death_check_before_exit_check [OF h1 h2, of "Suc 0"] by (rule conjunct1)
  then have "updateAndRender (Suc 0) exampleCollaborators (1 / 60) ?init =
      checkForLevelExitReached exampleCollaborators
         (exampleMode \<lparr>vec_x = 2, vec_y = 5\<rparr> Standing 9 \<lparr>vec_x = 2, vec_y = 5\<rparr> noInputs False
            (exampleFrameEvents noInputs (1 / 60) @ [FadeOutScreen]
               @ exampleFrameEvents noInputs 0 @ [FadeInScreen]))"
    by (simp only: d sum.case)
  moreover have "mLevelFinished ?init = False" using h1 by simp
  ultimately show ?thesis using h2 by blast
qed

text \<open>
  The order of the claim as stated (exit check first) gives another result: with the dead
  player standing at the exit and an actor list that creates the player elsewhere, the
  code restarts the level and leaves the flag cleared, while the exit check made first
  would set it.
\<close>

theorem exit_check_first_differs:
  "levelFinishedAfter
     (updateAndRender (Suc 0) exampleCollaborators (1 / 60)
        (exampleMode \<lparr>vec_x = 9, vec_y = 5\<rparr> Dead 0 \<lparr>vec_x = 2, vec_y = 5\<rparr> noInputs False []))
     = Some False
   \<and> levelFinishedAfter
     (spec_updateAndRender (Suc 0) exampleCollaborators (1 / 60)
        (exampleMode \<lparr>vec_x = 9, vec_y = 5\<rparr> Dead 0 \<lparr>vec_x = 2, vec_y = 5\<rparr> noInputs False []))
     = Some True"
proof -
  have a: "levelFinishedAfter
     (updateAndRender (Suc 0) exampleCollaborators (1 / 60)
        (exampleMode \<lparr>vec_x = 9, vec_y = 5\<rparr> Dead 0 \<lparr>vec_x = 2, vec_y = 5\<rparr> noInputs False []))
     = Some False"
    by (simp add: example_update_dead levelFinishedAfter_def exampleMode_simps)
  have r: "restartLevel (Suc 0) exampleCollaborators
      (exampleMode \<lparr>vec_x = 9, vec_y = 5\<rparr> Dead 0 \<lparr>vec_x = 2, vec_y = 5\<rparr> noInputs True t) =
      Inr (exampleMode \<lparr>vec_x = 2, vec_y = 5\<rparr> Standing 9 \<lparr>vec_x = 2, vec_y = 5\<rparr> noInputs True
             (t @ [FadeOutScreen, FadeInScreen]))" for t
    by (simp add: example_resetLevel updateAndRender.simps exampleMode_simps example_logEvents)
  have b: "spec_updateAndRender (Suc 0) exampleCollaborators (1 / 60)
        (exampleMode \<lparr>vec_x = 9, vec_y = 5\<rparr> Dead 0 \<lparr>vec_x = 2, vec_y = 5\<rparr> noInputs False [])
     = Inr (exampleMode \<lparr>vec_x = 2, vec_y = 5\<rparr> Standing 9 \<lparr>vec_x = 2, vec_y = 5\<rparr> noInputs True
             (exampleFrameEvents noInputs (1 / 60) @ [FadeOutScreen, FadeInScreen]))"
    unfolding spec_updateAndRender_def
    by (simp add: exampleMode_simps example_frame example_exit_check example_death_check r
          del: restartLevel.simps)
  show ?thesis using a b by (simp add: levelFinishedAfter_def exampleMode_simps)
qed


text \<open>
  Claim C5. The updating part of a frame first hands the input state to the attack and the
  elevator system and then updates, in this order: elevator, player movement, attack,
  player interaction, security camera, physics, player damage, damage infliction,
  animation, map scroll. The world it leaves is the world these ten updates give, each
  applied to the world the one before it left, and the calls on the system manager are
  made in this order. The rendering part then updates the rendering system on that world,
  runs the debugging system on the world the rendering system left, and draws the HUD. A
  call of \<open>updateAndRender\<close> that is not a no-op is these two parts, the debug text when
  it is switched on, and the two end-of-frame checks. In every such call that returns, the
  system updates the call made are these ten, then the rendering system and the debugging
  system, all with the time step of the call, followed, once for each level restart inside
  the call, by the same twelve in the same order with time step 0.
\<close>

theorem system_update_order:
  "mWorld (updateSystems C dt s) =
     foldl (\<lambda>w sys. systemUpdate C sys dt (mPlayerInputs s) w)
       ((mWorld s)\<lparr>mSystemState :=
           setInputState C Elevator (mPlayerInputs s)
             (setInputState C Attack (mPlayerInputs s) (mSystemState (mWorld s)))\<rparr>)
       [Elevator, PlayerMovement, Attack, PlayerInteraction, SecurityCamera, Physics,
        PlayerDamage, DamageInfliction, Animation, MapScroll]
   \<and> mTrace (updateSystems C dt s) =
       mTrace s @
         [SetInputState Attack (mPlayerInputs s), SetInputState Elevator (mPlayerInputs s),
          SystemUpdate Elevator dt, SystemUpdate PlayerMovement dt, SystemUpdate Attack dt,
          SystemUpdate PlayerInteraction dt, SystemUpdate SecurityCamera dt,
          SystemUpdate Physics dt, SystemUpdate PlayerDamage dt,
          SystemUpdate DamageInfliction dt, SystemUpdate Animation dt,
          SystemUpdate MapScroll dt]
   \<and> mWorld (renderPass C dt u) =
       (let w = systemUpdate C Rendering dt (mPlayerInputs u) (mWorld u);
            hud = hudUpdateAndRender C dt (mPlayerModel w) (mSystemState w)
        in w\<lparr>mPlayerModel := fst hud, mSystemState := snd hud\<rparr>)
   \<and> mTrace (renderPass C dt u) =
       mTrace u
       @ [BindRenderTarget, SystemUpdate Rendering dt, SystemUpdate Debugging dt]
       @ (let w = systemUpdate C Rendering dt (mPlayerInputs u) (mWorld u)
          in DebuggingSystem_update (externals C) (mDebuggingSystem u) (mScrollOffset w)
               (mMap w) (entities w))
       @ [HudUpdateAndRender dt, UnbindRenderTarget, RenderTargetRender]
   \<and> (\<not> mLevelFinished s \<longrightarrow>
        updateAndRender n C dt s =
          (let r = renderPass C dt (updateSystems C dt s)
           in case (if mShowDebugText s then showDebugText r else Inr r) of
                Inl err \<Rightarrow> Inl err
              | Inr s1 \<Rightarrow>
                  (case checkForPlayerDeath n C s1 of
                     Inl err \<Rightarrow> Inl err
                   | Inr s2 \<Rightarrow> checkForLevelExitReached C s2)))
   \<and> (\<not> mLevelFinished s \<and> updateAndRender n C dt s = Inr s' \<longrightarrow>
        (\<exists>k. systemUpdatesOf (newEvents s s') =
           [(Elevator, dt), (PlayerMovement, dt), (Attack, dt), (PlayerInteraction, dt),
            (SecurityCamera, dt), (Physics, dt), (PlayerDamage, dt), (DamageInfliction, dt),
            (Animation, dt), (MapScroll, dt), (Rendering, dt), (Debugging, dt)]
           @ concat (replicate k
               [(Elevator, 0), (PlayerMovement, 0), (Attack, 0), (PlayerInteraction, 0),
                (SecurityCamera, 0), (Physics, 0), (PlayerDamage, 0), (DamageInfliction, 0),
                (Animation, 0), (MapScroll, 0), (Rendering, 0), (Debugging, 0)])))"
proof (intro conjI impI)
  show "mWorld (updateSystems C dt s) =
     foldl (\<lambda>w sys. systemUpdate C sys dt (mPlayerInputs s) w)
       ((mWorld s)\<lparr>mSystemState :=
           setInputState C Elevator (mPlayerInputs s)
             (setInputState C Attack (mPlayerInputs s) (mSystemState (mWorld s)))\<rparr>)
       [Elevator, PlayerMovement, Attack, PlayerInteraction, SecurityCamera, Physics,
        PlayerDamage, DamageInfliction, Animation, MapScroll]"
    by (simp add: updateSystems_def Let_def updateSystem_def setSystemInput_def logEvents_def)
next
  show "mTrace (updateSystems C dt s) =
     mTrace s @
       [SetInputState Attack (mPlayerInputs s), SetInputState Elevator (mPlayerInputs s),
        SystemUpdate Elevator dt, SystemUpdate PlayerMovement dt, SystemUpdate Attack dt,
        SystemUpdate PlayerInteraction dt, SystemUpdate SecurityCamera dt,
        SystemUpdate Physics dt, SystemUpdate PlayerDamage dt,
        SystemUpdate DamageInfliction dt, SystemUpdate Animation dt,
        SystemUpdate MapScroll dt]"
    by (rule mTrace_updateSystems)
next
  show "mWorld (renderPass C dt u) =
       (let w = systemUpdate C Rendering dt (mPlayerInputs u) (mWorld u);
            hud = hudUpdateAndRender C dt (mPlayerModel w) (mSystemState w)
        in w\<lparr>mPlayerModel := fst hud, mSystemState := snd hud\<rparr>)"
    by (simp add: renderPass_def Let_def updateSystem_def updateDebuggingSystem_def
          updateHud_def logEvents_def case_prod_beta)
next
  show "mTrace (renderPass C dt u) =
       mTrace u
       @ [BindRenderTarget, SystemUpdate Rendering dt, SystemUpdate Debugging dt]
       @ (let w = systemUpdate C Rendering dt (mPlayerInputs u) (mWorld u)
          in DebuggingSystem_update (externals C) (mDebuggingSystem u) (mScrollOffset w)
               (mMap w) (entities w))
       @ [HudUpdateAndRender dt, UnbindRenderTarget, RenderTargetRender]"
    by (simp add: renderPass_def Let_def updateSystem_def updateDebuggingSystem_def
          updateHud_def logEvents_def case_prod_beta)
next
  assume "\<not> mLevelFinished s"
  then show "updateAndRender n C dt s =
          (let r = renderPass C dt (updateSystems C dt s)
           in case (if mShowDebugText s then showDebugText r else Inr r) of
                Inl err \<Rightarrow> Inl err
              | Inr s1 \<Rightarrow>
                  (case checkForPlayerDeath n C s1 of
                     Inl err \<Rightarrow> Inl err
                   | Inr s2 \<Rightarrow> checkForLevelExitReached C s2))"
    by (subst updateAndRender.simps)
       (simp add: renderFrame_def Let_def mShowDebugText_frame)
next
  assume a: "\<not> mLevelFinished s \<and> updateAndRender n C dt s = Inr s'"
  then obtain evs k where "mTrace s' = mTrace s @ evs"
    "systemUpdatesOf evs = frameOrder dt @ concat (replicate k (frameOrder 0))"
    using updateAndRender_systemUpdates [of n C dt s s'] by blast
  then have "systemUpdatesOf (newEvents s s') =
      frameOrder dt @ concat (replicate k (frameOrder 0))"
    by (simp add: newEvents_append)
  then show "\<exists>k. systemUpdatesOf (newEvents s s') =
           [(Elevator, dt), (PlayerMovement, dt), (Attack, dt), (PlayerInteraction, dt),
            (SecurityCamera, dt), (Physics, dt), (PlayerDamage, dt), (DamageInfliction, dt),
            (Animation, dt), (MapScroll, dt), (Rendering, dt), (Debugging, dt)]
           @ concat (replicate k
               [(Elevator, 0), (PlayerMovement, 0), (Attack, 0), (PlayerInteraction, 0),
                (SecurityCamera, 0), (Physics, 0), (PlayerDamage, 0), (DamageInfliction, 0),
                (Animation, 0), (MapScroll, 0), (Rendering, 0), (Debugging, 0)])"
    by (intro exI [of _ k]) (simp only: frameOrder_def list.map)
qed

theorem system_update_order_witness:
  "mLevelFinished
     (exampleMode \<lparr>vec_x = 2, vec_y = 5\<rparr> Standing 9 \<lparr>vec_x = 2, vec_y = 5\<rparr> noInputs False [])
     = False
   \<and> updateAndRender 0 exampleCollaborators (1 / 60)
       (exampleMode \<lparr>vec_x = 2, vec_y = 5\<rparr> Standing 9 \<lparr>vec_x = 2, vec_y = 5\<rparr> noInputs False [])
     = Inr (exampleMode \<lparr>vec_x = 2, vec_y = 5\<rparr> Standing 9 \<lparr>vec_x = 2, vec_y = 5\<rparr> noInputs False
              (exampleFrameEvents noInputs (1 / 60)))
   \<and> take 12 (systemUpdatesOf (newEvents
        (exampleMode \<lparr>vec_x = 2, vec_y = 5\<rparr> Standing 9 \<lparr>vec_x = 2, vec_y = 5\<rparr> noInputs False [])
        (exampleMode \<lparr>vec_x = 2, vec_y = 5\<rparr> Standing 9 \<lparr>vec_x = 2, vec_y = 5\<rparr> noInputs False
              (exampleFrameEvents noInputs (1 / 60)))))
     = [(Elevator, 1 / 60), (PlayerMovement, 1 / 60), (Attack, 1 / 60),
        (PlayerInteraction, 1 / 60), (SecurityCamera, 1 / 60), (Physics, 1 / 60),
        (PlayerDamage, 1 / 60), (DamageInfliction, 1 / 60), (Animation, 1 / 60),
        (MapScroll, 1 / 60), (Rendering, 1 / 60), (Debugging, 1 / 60)]
   \<and> mSystemState (mWorld (updateSystems recordingCollaborators (1 / 60) recordingMode))
     = [Elevator, PlayerMovement, Attack, PlayerInteraction, SecurityCamera, Physics,
        PlayerDamage, DamageInfliction, Animation, MapScroll]
   \<and> mSystemState (mWorld (renderPass recordingCollaborators (1 / 60)
        (updateSystems recordingCollaborators (1 / 60) recordingMode)))
     = [Elevator, PlayerMovement, Attack, PlayerInteraction, SecurityCamera, Physics,
        PlayerDamage, DamageInfliction, Animation, MapScroll, Rendering]"
proof -
  let ?init = "exampleMode \<lparr>vec_x = 2, vec_y = 5\<rparr> Standing 9 \<lparr>vec_x = 2, vec_y = 5\<rparr> noInputs False []"
  let ?fin = "exampleMode \<lparr>vec_x = 2, vec_y = 5\<rparr> Standing 9 \<lparr>vec_x = 2, vec_y = 5\<rparr> noInputs False
              (exampleFrameEvents noInputs (1 / 60))"
  have h1: "\<not> mLevelFinished ?init" by (simp add: exampleMode_simps)
  have "updateAndRender 0 exampleCollaborators (1 / 60) ?init =
      Inr (exampleMode \<lparr>vec_x = 2, vec_y = 5\<rparr> Standing 9 \<lparr>vec_x = 2, vec_y = 5\<rparr> noInputs
             ((5::int) \<le> 5 \<and> (10::int) \<le> int32 (2 + 3) \<and> (2::int) \<le> 10)
             ([] @ exampleFrameEvents noInputs (1 / 60)))"
    by (rule example_update_alive) simp
  then have h2: "updateAndRender 0 exampleCollaborators (1 / 60) ?init = Inr ?fin" by simp
  from system_update_order [of exampleCollaborators "1 / 60" ?init _ 0 ?fin] h1 h2
  obtain k where "systemUpdatesOf (newEvents ?init ?fin) =
           [(Elevator, 1 / 60), (PlayerMovement, 1 / 60), (Attack, 1 / 60),
            (PlayerInteraction, 1 / 60), (SecurityCamera, 1 / 60), (Physics, 1 / 60),
            (PlayerDamage, 1 / 60), (DamageInfliction, 1 / 60), (Animation, 1 / 60),
            (MapScroll, 1 / 60), (Rendering, 1 / 60), (Debugging, 1 / 60)]
           @ concat (replicate k
               [(Elevator, 0), (PlayerMovement, 0), (Attack, 0), (PlayerInteraction, 0),
                (SecurityCamera, 0), (Physics, 0), (PlayerDamage, 0), (DamageInfliction, 0),
                (Animation, 0), (MapScroll, 0), (Rendering, 0), (Debugging, 0)])"
    by blast
  then have a: "take 12 (systemUpdatesOf (newEvents ?init ?fin)) =
           [(Elevator, 1 / 60), (PlayerMovement, 1 / 60), (Attack, 1 / 60),
            (PlayerInteraction, 1 / 60), (SecurityCamera, 1 / 60), (Physics, 1 / 60),
            (PlayerDamage, 1 / 60), (DamageInfliction, 1 / 60), (Animation, 1 / 60),
            (MapScroll, 1 / 60), (Rendering, 1 / 60), (Debugging, 1 / 60)]"
    by simp
  have b: "mLevelFinished ?init = False" using h1 by simp
  let ?u = "updateSystems recordingCollaborators (1 / 60) recordingMode"
  from system_update_order [of recordingCollaborators "1 / 60" recordingMode ?u]
  have w1: "mWorld ?u =
     foldl (\<lambda>w sys. systemUpdate recordingCollaborators sys (1 / 60) (mPlayerInputs recordingMode) w)
       ((mWorld recordingMode)\<lparr>mSystemState :=
           setInputState recordingCollaborators Elevator (mPlayerInputs recordingMode)
             (setInputState recordingCollaborators Attack (mPlayerInputs recordingMode)
                (mSystemState (mWorld recordingMode)))\<rparr>)
       [Elevator, PlayerMovement, Attack, PlayerInteraction, SecurityCamera, Physics,
        PlayerDamage, DamageInfliction, Animation, MapScroll]"
    and w2: "mWorld (renderPass recordingCollaborators (1 / 60) ?u) =
       (let w = systemUpdate recordingCollaborators Rendering (1 / 60) (mPlayerInputs ?u) (mWorld ?u);
            hud = hudUpdateAndRender recordingCollaborators (1 / 60) (mPlayerModel w) (mSystemState w)
        in w\<lparr>mPlayerModel := fst hud, mSystemState := snd hud\<rparr>)"
    by blast+
  have c: "mSystemState (mWorld ?u)
     = [Elevator, PlayerMovement, Attack, PlayerInteraction, SecurityCamera, Physics,
        PlayerDamage, DamageInfliction, Animation, MapScroll]"
    unfolding w1 by (simp add: recordingCollaborators_def recordingMode_def)
  have d: "mSystemState (mWorld (renderPass recordingCollaborators (1 / 60) ?u))
     = [Elevator, PlayerMovement, Attack, PlayerInteraction, SecurityCamera, Physics,
        PlayerDamage, DamageInfliction, Animation, MapScroll, Rendering]"
    unfolding w2 Let_def using c by (simp add: recordingCollaborators_def)
  from a b c d h2 show ?thesis by blast
qed

text \<open>
  Claim C2, amended. When the level-exit check is made with the flag cleared (the player
  entity having its position and its bounding box), it returns with the flag set exactly
  when some entity of the store has a trigger of type \<open>LevelExit\<close> and a position such that
  the bottom edge of the player's box in world space is at or above the trigger's row and
  the trigger's column lies between the left edge and the right edge plus one, the sum
  being the \<open>int\<close> sum of the code. For a right edge below \<open>INT_MAX\<close> the sum is exact.
  Then, for a trigger at column 10, row 5, the test is: bottom edge at most 5, left edge
  at most 10 and right edge at least 9. So a box with left edge 9, right edge 11 and
  bottom edge 5 sets the flag, and the test fails once the right edge is below 9 or the
  left edge above 10. For a right edge of \<open>INT_MAX\<close> the sum wraps around to \<open>INT_MIN\<close> and the
  test fails for this trigger.
\<close>

theorem level_exit_check:
  assumes "playerEntity s = Some player"
    and "cWorldPosition player = Some playerPosition"
    and "cBoundingBox player = Some bbox"
    and "\<not> mLevelFinished s"
  shows "checkForLevelExitReached C s =
           Inr (s\<lparr>mLevelFinished :=
                  list_ex (atLevelExit (externals C)
                             (toWorldSpace (externals C) bbox playerPosition))
                    (entities (mWorld s))\<rparr>)
         \<and> (INT_MIN \<le> rectRight (externals C) box \<and> rectRight (externals C) box < INT_MAX \<longrightarrow>
            atLevelExit (externals C) box e =
              (\<exists>trigger triggerPosition.
                 cTrigger e = Some trigger \<and> cWorldPosition e = Some triggerPosition
                 \<and> mType trigger = LevelExit
                 \<and> rectBottom (externals C) box \<le> vec_y triggerPosition
                 \<and> rectLeft (externals C) box \<le> vec_x triggerPosition
                 \<and> vec_x triggerPosition \<le> rectRight (externals C) box + 1))
         \<and> (cTrigger e = Some \<lparr>mType = LevelExit\<rparr>
              \<and> cWorldPosition e = Some \<lparr>vec_x = 10, vec_y = 5\<rparr>
              \<and> INT_MIN \<le> rectRight (externals C) box
              \<and> rectRight (externals C) box < INT_MAX \<longrightarrow>
            atLevelExit (externals C) box e =
              (rectBottom (externals C) box \<le> 5 \<and> rectLeft (externals C) box \<le> 10
               \<and> 9 \<le> rectRight (externals C) box))
         \<and> (cTrigger e = Some \<lparr>mType = LevelExit\<rparr>
              \<and> cWorldPosition e = Some \<lparr>vec_x = 10, vec_y = 5\<rparr>
              \<and> rectRight (externals C) box = INT_MAX \<longrightarrow>
            \<not> atLevelExit (externals C) box e)"
proof (intro conjI impI)
  show "checkForLevelExitReached C s =
           Inr (s\<lparr>mLevelFinished :=
                  list_ex (atLevelExit (externals C)
                             (toWorldSpace (externals C) bbox playerPosition))
                    (entities (mWorld s))\<rparr>)"
    unfolding checkForLevelExitReached_def
    using eachTrigger_exact [OF assms(1-3), of C "entities (mWorld s)"] assms(4) by simp
next
  assume "INT_MIN \<le> rectRight (externals C) box \<and> rectRight (externals C) box < INT_MAX"
  then have "int32 (rectRight (externals C) box + 1) = rectRight (externals C) box + 1"
    by (simp add: INT_MIN_def INT_MAX_def)
  then show "atLevelExit (externals C) box e =
              (\<exists>trigger triggerPosition.
                 cTrigger e = Some trigger \<and> cWorldPosition e = Some triggerPosition
                 \<and> mType trigger = LevelExit
                 \<and> rectBottom (externals C) box \<le> vec_y triggerPosition
                 \<and> rectLeft (externals C) box \<le> vec_x triggerPosition
                 \<and> vec_x triggerPosition \<le> rectRight (externals C) box + 1)"
    by (auto simp: atLevelExit_def split: option.splits)
next
  assume a: "cTrigger e = Some \<lparr>mType = LevelExit\<rparr>
      \<and> cWorldPosition e = Some \<lparr>vec_x = 10, vec_y = 5\<rparr>
      \<and> INT_MIN \<le> rectRight (externals C) box
      \<and> rectRight (externals C) box < INT_MAX"
  then have "int32 (rectRight (externals C) box + 1) = rectRight (externals C) box + 1"
    by (simp add: INT_MIN_def INT_MAX_def)
  with a show "atLevelExit (externals C) box e =
              (rectBottom (externals C) box \<le> 5 \<and> rectLeft (externals C) box \<le> 10
               \<and> 9 \<le> rectRight (externals C) box)"
    by (auto simp: atLevelExit_def)
next
  assume a: "cTrigger e = Some \<lparr>mType = LevelExit\<rparr>
      \<and> cWorldPosition e = Some \<lparr>vec_x = 10, vec_y = 5\<rparr>
      \<and> rectRight (externals C) box = INT_MAX"
  then have "int32 (rectRight (externals C) box + 1) = - 2147483648"
    by (simp add: INT_MAX_def int32_def)
  with a show "\<not> atLevelExit (externals C) box e"
    by (simp add: atLevelExit_def)
qed

theorem level_exit_check_witness:
  "playerEntity
     (exampleMode \<lparr>vec_x = 9, vec_y = 5\<rparr> Standing 9 \<lparr>vec_x = 2, vec_y = 5\<rparr> noInputs False [])
     = Some (examplePlayer \<lparr>vec_x = 9, vec_y = 5\<rparr> Standing)
   \<and> cWorldPosition (examplePlayer \<lparr>vec_x = 9, vec_y = 5\<rparr> Standing)
       = Some \<lparr>vec_x = 9, vec_y = 5\<rparr>
   \<and> cBoundingBox (examplePlayer \<lparr>vec_x = 9, vec_y = 5\<rparr> Standing)
       = Some \<lparr>topLeft = \<lparr>vec_x = 0, vec_y = 0\<rparr>, rectSize = \<lparr>width = 3, height = 5\<rparr>\<rparr>
   \<and> mLevelFinished
       (exampleMode \<lparr>vec_x = 9, vec_y = 5\<rparr> Standing 9 \<lparr>vec_x = 2, vec_y = 5\<rparr> noInputs False [])
       = False
   \<and> rectLeft exampleExternals
       (toWorldSpace exampleExternals
          \<lparr>topLeft = \<lparr>vec_x = 0, vec_y = 0\<rparr>, rectSize = \<lparr>width = 3, height = 5\<rparr>\<rparr>
          \<lparr>vec_x = 9, vec_y = 5\<rparr>) = 9
   \<and> rectRight exampleExternals
       (toWorldSpace exampleExternals
          \<lparr>topLeft = \<lparr>vec_x = 0, vec_y = 0\<rparr>, rectSize = \<lparr>width = 3, height = 5\<rparr>\<rparr>
          \<lparr>vec_x = 9, vec_y = 5\<rparr>) = 11
   \<and> rectBottom exampleExternals
       (toWorldSpace exampleExternals
          \<lparr>topLeft = \<lparr>vec_x = 0, vec_y = 0\<rparr>, rectSize = \<lparr>width = 3, height = 5\<rparr>\<rparr>
          \<lparr>vec_x = 9, vec_y = 5\<rparr>) = 5
   \<and> INT_MIN \<le> 11 \<and> 11 < INT_MAX
   \<and> cTrigger exampleExit = Some \<lparr>mType = LevelExit\<rparr>
   \<and> cWorldPosition exampleExit = Some \<lparr>vec_x = 10, vec_y = 5\<rparr>
   \<and> checkForLevelExitReached exampleCollaborators
       (exampleMode \<lparr>vec_x = 9, vec_y = 5\<rparr> Standing 9 \<lparr>vec_x = 2, vec_y = 5\<rparr> noInputs False [])
     = Inr (exampleMode \<lparr>vec_x = 9, vec_y = 5\<rparr> Standing 9 \<lparr>vec_x = 2, vec_y = 5\<rparr> noInputs True [])
   \<and> rectRight exampleExternals
       \<lparr>topLeft = \<lparr>vec_x = 2147483645, vec_y = 1\<rparr>, rectSize = \<lparr>width = 3, height = 5\<rparr>\<rparr>
       = INT_MAX
   \<and> atLevelExit exampleExternals
       \<lparr>topLeft = \<lparr>vec_x = 2147483645, vec_y = 1\<rparr>, rectSize = \<lparr>width = 3, height = 5\<rparr>\<rparr>
       exampleExit = False"
proof -
  let ?init = "exampleMode \<lparr>vec_x = 9, vec_y = 5\<rparr> Standing 9 \<lparr>vec_x = 2, vec_y = 5\<rparr> noInputs False []"
  let ?box = "toWorldSpace exampleExternals
          \<lparr>topLeft = \<lparr>vec_x = 0, vec_y = 0\<rparr>, rectSize = \<lparr>width = 3, height = 5\<rparr>\<rparr>
          \<lparr>vec_x = 9, vec_y = 5\<rparr>"
  let ?far = "\<lparr>topLeft = \<lparr>vec_x = 2147483645, vec_y = 1\<rparr>, rectSize = \<lparr>width = 3, height = 5\<rparr>\<rparr>"
  have h1: "playerEntity ?init = Some (examplePlayer \<lparr>vec_x = 9, vec_y = 5\<rparr> Standing)"
    by (rule example_playerEntity)
  have h2: "cWorldPosition (examplePlayer \<lparr>vec_x = 9, vec_y = 5\<rparr> Standing)
       = Some \<lparr>vec_x = 9, vec_y = 5\<rparr>"
    by (simp add: examplePlayer_def)
  have h3: "cBoundingBox (examplePlayer \<lparr>vec_x = 9, vec_y = 5\<rparr> Standing)
       = Some \<lparr>topLeft = \<lparr>vec_x = 0, vec_y = 0\<rparr>, rectSize = \<lparr>width = 3, height = 5\<rparr>\<rparr>"
    by (simp add: examplePlayer_def)
  have h4: "\<not> mLevelFinished ?init" by (simp add: exampleMode_simps)
  have edges: "rectLeft exampleExternals ?box = 9" "rectRight exampleExternals ?box = 11"
    "rectBottom exampleExternals ?box = 5"
    by (simp_all add: exampleExternals_def)
  have range: "INT_MIN \<le> 11 \<and> 11 < INT_MAX"
    by (simp add: INT_MIN_def INT_MAX_def)
  have far: "rectRight exampleExternals ?far = INT_MAX"
    by (simp add: exampleExternals_def INT_MAX_def)
  have trg: "cTrigger exampleExit = Some \<lparr>mType = LevelExit\<rparr>
      \<and> cWorldPosition exampleExit = Some \<lparr>vec_x = 10, vec_y = 5\<rparr>"
    by (simp add: exampleExit_def)
  have ext: "externals exampleCollaborators = exampleExternals"
    by (simp add: exampleCollaborators_def)
  note inst = level_exit_check [OF h1 h2 h3 h4, of exampleCollaborators ?box exampleExit]
  note inst_far = level_exit_check [OF h1 h2 h3 h4, of exampleCollaborators ?far exampleExit]
  from inst trg edges range have at: "atLevelExit exampleExternals ?box exampleExit"
    by (simp add: ext)
  from inst_far trg far have nofar: "atLevelExit exampleExternals ?far exampleExit = False"
    by (simp add: ext)
  have "\<not> atLevelExit exampleExternals ?box (examplePlayer \<lparr>vec_x = 9, vec_y = 5\<rparr> Standing)"
    by (simp add: atLevelExit_no_trigger examplePlayer_def)
  with at have "list_ex (atLevelExit exampleExternals ?box) (entities (mWorld ?init))"
    by (simp add: exampleMode_simps)
  with inst have "checkForLevelExitReached exampleCollaborators ?init =
      Inr (?init\<lparr>mLevelFinished := True\<rparr>)"
    by (simp add: ext)
  then have "checkForLevelExitReached exampleCollaborators ?init =
      Inr (exampleMode \<lparr>vec_x = 9, vec_y = 5\<rparr> Standing 9 \<lparr>vec_x = 2, vec_y = 5\<rparr> noInputs True [])"
    by (simp only: example_set_finished)
  moreover have "mLevelFinished ?init = False" using h4 by simp
  ultimately show ?thesis using h1 h2 h3 edges trg range far nofar by blast
qed

text \<open>
  The claim as stated fails: it has the test fail for every box whose right edge is below
  10. With the player at \<open>(7, 5)\<close> the right edge is 9, and the check sets the flag for the
  trigger at column 10.
\<close>

theorem level_exit_right_edge_nine:
  "rectRight exampleExternals
     (toWorldSpace exampleExternals
        \<lparr>topLeft = \<lparr>vec_x = 0, vec_y = 0\<rparr>, rectSize = \<lparr>width = 3, height = 5\<rparr>\<rparr>
        \<lparr>vec_x = 7, vec_y = 5\<rparr>) < 10
   \<and> cWorldPosition exampleExit = Some \<lparr>vec_x = 10, vec_y = 5\<rparr>
   \<and> checkForLevelExitReached exampleCollaborators
       (exampleMode \<lparr>vec_x = 7, vec_y = 5\<rparr> Standing 9 \<lparr>vec_x = 2, vec_y = 5\<rparr> noInputs False [])
     = Inr (exampleMode \<lparr>vec_x = 7, vec_y = 5\<rparr> Standing 9 \<lparr>vec_x = 2, vec_y = 5\<rparr> noInputs True [])"
  by (simp add: example_exit_check exampleExternals_def exampleExit_def)


text \<open>
  Claim C1. Take a call of \<open>updateAndRender\<close> that reaches the player-death check: the
  level-finished flag is cleared and the updating and rendering part returns the state
  \<open>s1\<close>, in which the player entity has its \<open>PlayerControlled\<close> component. If in \<open>s1\<close> the
  player's state is \<open>Dead\<close> and the health of the player model is at most 0, the call is the
  restart sequence followed by the exit check: the fade-out, the map set to the level-start
  copy, the entity store emptied and filled again from the initial actor list, the player
  model set to the level-start copy, one \<open>updateAndRender(0)\<close> that is not a no-op, and the
  fade-in; the events of the call after \<open>s1\<close> are the fade-out, the events of that pass (the
  twelve system updates with time step 0, in the fixed order) and the fade-in. Otherwise the
  call is the exit check on \<open>s1\<close> alone and adds no event after \<open>s1\<close>. A call that is a no-op
  because the level is finished restarts nothing (claim C6), and it never skips a restart
  that is due: no call that returns leaves a dead player with health at most 0 behind, and
  in no state reached from a newly constructed instance by calls of \<open>handleEvent\<close> and
  \<open>updateAndRender\<close> is the level finished with the player dead and the health at most 0.
\<close>

theorem player_death_restarts_level:
  assumes "\<not> mLevelFinished s"
    and "renderFrame C dt (updateSystems C dt s) = Inr s1"
    and "playerEntity s1 = Some player"
    and "cPlayerControlled player = Some playerState"
  shows "(mState playerState = Dead \<and> mHealth (mPlayerModel (mWorld s1)) \<le> 0 \<longrightarrow>
            updateAndRender (Suc n) C dt s =
              (case updateAndRender n C 0 (resetLevel C s1) of
                 Inl err \<Rightarrow> Inl err
               | Inr s2 \<Rightarrow> checkForLevelExitReached C (logEvents [FadeInScreen] s2))
            \<and> mTrace (resetLevel C s1) = mTrace s1 @ [FadeOutScreen]
            \<and> mMap (mWorld (resetLevel C s1)) = mMapAtLevelStart s
            \<and> (entities (mWorld (resetLevel C s1)), mPlayerEntity (resetLevel C s1)) =
                 createEntitiesForLevel C (mInitialActors s) []
            \<and> mPlayerModel (mWorld (resetLevel C s1)) = mPlayerModelAtLevelStart s
            \<and> \<not> mLevelFinished (resetLevel C s1))
         \<and> (\<not> (mState playerState = Dead \<and> mHealth (mPlayerModel (mWorld s1)) \<le> 0) \<longrightarrow>
              updateAndRender n C dt s = checkForLevelExitReached C s1)
         \<and> (\<forall>s'. updateAndRender n C dt s = Inr s' \<longrightarrow>
              (mState playerState = Dead \<and> mHealth (mPlayerModel (mWorld s1)) \<le> 0 \<longrightarrow>
                 (\<exists>pass k. newEvents s1 s' = [FadeOutScreen] @ pass @ [FadeInScreen]
                    \<and> systemUpdatesOf pass =
                        frameOrder 0 @ concat (replicate k (frameOrder 0))))
              \<and> (\<not> (mState playerState = Dead \<and> mHealth (mPlayerModel (mWorld s1)) \<le> 0) \<longrightarrow>
                   newEvents s1 s' = [])
              \<and> \<not> playerDead s')
         \<and> (IngameMode_new C episode levelNumber loadLevel playerModel inputs scrollOffset debugging
               systems playerPositionOverride = Inr s0
             \<and> runCalls m C calls s0 = Inr t \<and> mLevelFinished t \<longrightarrow> \<not> playerDead t)"
proof (intro conjI impI allI)
  note u = frame_unchanged [OF assms(2)]
  note dead = playerDead_eq [OF assms(3,4)]
  {
    assume d: "mState playerState = Dead \<and> mHealth (mPlayerModel (mWorld s1)) \<le> 0"
    have "checkForPlayerDeath (Suc n) C s1 = restartLevel (Suc n) C s1"
      using d by (simp add: checkForPlayerDeath_eq [OF assms(3,4)])
    then show "updateAndRender (Suc n) C dt s =
              (case updateAndRender n C 0 (resetLevel C s1) of
                 Inl err \<Rightarrow> Inl err
               | Inr s2 \<Rightarrow> checkForLevelExitReached C (logEvents [FadeInScreen] s2))"
      using assms(1,2)
      by (subst updateAndRender.simps) (simp split: sum.splits)
    show "mTrace (resetLevel C s1) = mTrace s1 @ [FadeOutScreen]"
      by (simp add: resetLevel_fields)
    show "mMap (mWorld (resetLevel C s1)) = mMapAtLevelStart s"
      using u by (simp add: resetLevel_world unchanged_def)
    show "(entities (mWorld (resetLevel C s1)), mPlayerEntity (resetLevel C s1)) =
                 createEntitiesForLevel C (mInitialActors s) []"
      using u by (simp add: resetLevel_world unchanged_def)
    show "mPlayerModel (mWorld (resetLevel C s1)) = mPlayerModelAtLevelStart s"
      using u by (simp add: resetLevel_world unchanged_def)
    show "\<not> mLevelFinished (resetLevel C s1)"
      using u assms(1) by (simp add: resetLevel_fields unchanged_def)
  }
  {
    assume nd: "\<not> (mState playerState = Dead \<and> mHealth (mPlayerModel (mWorld s1)) \<le> 0)"
    have "checkForPlayerDeath n C s1 = Inr s1"
      using nd by (auto simp: checkForPlayerDeath_eq [OF assms(3,4)])
    then show "updateAndRender n C dt s = checkForLevelExitReached C s1"
      using assms(1,2)
      by (subst updateAndRender.simps) simp
  }
  {
    fix s'
    assume r: "updateAndRender n C dt s = Inr s'"
    from r assms(1) show "\<not> playerDead s'" by (rule updateAndRender_not_dead)
    {
      assume d: "mState playerState = Dead \<and> mHealth (mPlayerModel (mWorld s1)) \<le> 0"
      from r assms(1) show "\<exists>pass k. newEvents s1 s' = [FadeOutScreen] @ pass @ [FadeInScreen]
                    \<and> systemUpdatesOf pass =
                        frameOrder 0 @ concat (replicate k (frameOrder 0))"
      proof (cases rule: updateAndRender_cases)
        case (alive t1)
        with assms(2) d dead show ?thesis by simp
      next
        case (restart t1 m s2)
        with assms(2) have t1: "t1 = s1" by simp
        from u assms(1) have nf: "\<not> mLevelFinished (resetLevel C s1)"
          by (simp add: resetLevel_fields unchanged_def)
        from updateAndRender_systemUpdates [OF restart(4) [unfolded t1] nf]
        obtain pass k where p: "mTrace s2 = mTrace (resetLevel C s1) @ pass"
          "systemUpdatesOf pass = frameOrder 0 @ concat (replicate k (frameOrder 0))"
          by blast
        from restart(5) have "mTrace s' = mTrace s2 @ [FadeInScreen]"
          by (auto dest!: checkForLevelExitReached_flag)
        with p have "mTrace s' = mTrace s1 @ ([FadeOutScreen] @ pass @ [FadeInScreen])"
          by (simp add: resetLevel_fields)
        then have "newEvents s1 s' = [FadeOutScreen] @ pass @ [FadeInScreen]"
          by (rule newEvents_append)
        with p show ?thesis by blast
      qed
    }
    {
      assume nd: "\<not> (mState playerState = Dead \<and> mHealth (mPlayerModel (mWorld s1)) \<le> 0)"
      from r assms(1) show "newEvents s1 s' = []"
      proof (cases rule: updateAndRender_cases)
        case (alive t1)
        with assms(2) have "t1 = s1" by simp
        with alive(3) have "mTrace s' = mTrace s1 @ []"
          by (auto dest!: checkForLevelExitReached_flag)
        then show ?thesis by (rule newEvents_append)
      next
        case (restart t1 m s2)
        with assms(2) nd dead show ?thesis by simp
      qed
    }
  }
  {
    assume a: "IngameMode_new C episode levelNumber loadLevel playerModel inputs scrollOffset debugging
               systems playerPositionOverride = Inr s0
             \<and> runCalls m C calls s0 = Inr t \<and> mLevelFinished t"
    then have "\<not> mLevelFinished s0" by (blast dest: IngameMode_new_not_finished)
    then have inv: "mLevelFinished s0 \<longrightarrow> \<not> playerDead s0" by simp
    from a have run: "runCalls m C calls s0 = Inr t" by simp
    from runCalls_no_pending_restart [OF run inv] a show "\<not> playerDead t" by simp
  }
qed

theorem player_death_restarts_level_witness:
  "mLevelFinished
     (exampleMode \<lparr>vec_x = 20, vec_y = 5\<rparr> Dead 0 \<lparr>vec_x = 2, vec_y = 5\<rparr> noInputs False [])
     = False
   \<and> renderFrame exampleCollaborators (1 / 60)
       (updateSystems exampleCollaborators (1 / 60)
          (exampleMode \<lparr>vec_x = 20, vec_y = 5\<rparr> Dead 0 \<lparr>vec_x = 2, vec_y = 5\<rparr> noInputs False []))
     = Inr (exampleMode \<lparr>vec_x = 20, vec_y = 5\<rparr> Dead 0 \<lparr>vec_x = 2, vec_y = 5\<rparr> noInputs False
              (exampleFrameEvents noInputs (1 / 60)))
   \<and> playerEntity
       (exampleMode \<lparr>vec_x = 20, vec_y = 5\<rparr> Dead 0 \<lparr>vec_x = 2, vec_y = 5\<rparr> noInputs False
              (exampleFrameEvents noInputs (1 / 60)))
     = Some (examplePlayer \<lparr>vec_x = 20, vec_y = 5\<rparr> Dead)
   \<and> cPlayerControlled (examplePlayer \<lparr>vec_x = 20, vec_y = 5\<rparr> Dead) = Some \<lparr>mState = Dead\<rparr>
   \<and> mHealth (mPlayerModel (mWorld
        (exampleMode \<lparr>vec_x = 20, vec_y = 5\<rparr> Dead 0 \<lparr>vec_x = 2, vec_y = 5\<rparr> noInputs False
              (exampleFrameEvents noInputs (1 / 60))))) = 0
   \<and> updateAndRender (Suc 0) exampleCollaborators (1 / 60)
       (exampleMode \<lparr>vec_x = 20, vec_y = 5\<rparr> Dead 0 \<lparr>vec_x = 2, vec_y = 5\<rparr> noInputs False [])
     = Inr (exampleMode \<lparr>vec_x = 2, vec_y = 5\<rparr> Standing 9 \<lparr>vec_x = 2, vec_y = 5\<rparr> noInputs False
              (exampleFrameEvents noInputs (1 / 60) @ [FadeOutScreen]
                 @ exampleFrameEvents noInputs 0 @ [FadeInScreen]))
   \<and> mPlayerModel (mWorld (resetLevel exampleCollaborators
        (exampleMode \<lparr>vec_x = 20, vec_y = 5\<rparr> Dead 0 \<lparr>vec_x = 2, vec_y = 5\<rparr> noInputs False
              (exampleFrameEvents noInputs (1 / 60))))) = \<lparr>mHealth = 9\<rparr>
   \<and> mMap (mWorld (resetLevel exampleCollaborators
        (exampleMode \<lparr>vec_x = 20, vec_y = 5\<rparr> Dead 0 \<lparr>vec_x = 2, vec_y = 5\<rparr> noInputs False
              (exampleFrameEvents noInputs (1 / 60))))) = exampleMap
   \<and> entities (mWorld (resetLevel exampleCollaborators
        (exampleMode \<lparr>vec_x = 20, vec_y = 5\<rparr> Dead 0 \<lparr>vec_x = 2, vec_y = 5\<rparr> noInputs False
              (exampleFrameEvents noInputs (1 / 60)))))
     = [examplePlayer \<lparr>vec_x = 2, vec_y = 5\<rparr> Standing, exampleExit]
   \<and> playerDead
       (exampleMode \<lparr>vec_x = 2, vec_y = 5\<rparr> Standing 9 \<lparr>vec_x = 2, vec_y = 5\<rparr> noInputs False
              (exampleFrameEvents noInputs (1 / 60) @ [FadeOutScreen]
                 @ exampleFrameEvents noInputs 0 @ [FadeInScreen])) = False
   \<and> IngameMode_new exampleCollaborators 0 0
       exampleLoadLevel
       \<lparr>mHealth = 9\<rparr> noInputs \<lparr>vec_x = 0, vec_y = 0\<rparr> debugOff ()
       (Some \<lparr>vec_x = 9, vec_y = 5\<rparr>)
     = Inr (exampleMode \<lparr>vec_x = 9, vec_y = 5\<rparr> Standing 9 \<lparr>vec_x = 2, vec_y = 5\<rparr> noInputs False
          [FadeOutScreen, PlayMusic ''MENUSNG2.IMF'', ShowLoadingScreen ''LOAD1.MNI'', FadeInScreen,
           PlayMusic ''LEVEL1.IMF''])
   \<and> runCalls 0 exampleCollaborators [UpdateAndRender (1 / 60)]
       (exampleMode \<lparr>vec_x = 9, vec_y = 5\<rparr> Standing 9 \<lparr>vec_x = 2, vec_y = 5\<rparr> noInputs False
          [FadeOutScreen, PlayMusic ''MENUSNG2.IMF'', ShowLoadingScreen ''LOAD1.MNI'', FadeInScreen,
           PlayMusic ''LEVEL1.IMF''])
     = Inr (exampleMode \<lparr>vec_x = 9, vec_y = 5\<rparr> Standing 9 \<lparr>vec_x = 2, vec_y = 5\<rparr> noInputs True
          ([FadeOutScreen, PlayMusic ''MENUSNG2.IMF'', ShowLoadingScreen ''LOAD1.MNI'', FadeInScreen,
            PlayMusic ''LEVEL1.IMF''] @ exampleFrameEvents noInputs (1 / 60)))
   \<and> mLevelFinished
       (exampleMode \<lparr>vec_x = 9, vec_y = 5\<rparr> Standing 9 \<lparr>vec_x = 2, vec_y = 5\<rparr> noInputs True
          ([FadeOutScreen, PlayMusic ''MENUSNG2.IMF'', ShowLoadingScreen ''LOAD1.MNI'', FadeInScreen,
            PlayMusic ''LEVEL1.IMF''] @ exampleFrameEvents noInputs (1 / 60)))
   \<and> playerDead
       (exampleMode \<lparr>vec_x = 9, vec_y = 5\<rparr> Standing 9 \<lparr>vec_x = 2, vec_y = 5\<rparr> noInputs True
          ([FadeOutScreen, PlayMusic ''MENUSNG2.IMF'', ShowLoadingScreen ''LOAD1.MNI'', FadeInScreen,
            PlayMusic ''LEVEL1.IMF''] @ exampleFrameEvents noInputs (1 / 60))) = False"
proof -
  let ?new = "exampleMode \<lparr>vec_x = 9, vec_y = 5\<rparr> Standing 9 \<lparr>vec_x = 2, vec_y = 5\<rparr> noInputs False
          [FadeOutScreen, PlayMusic ''MENUSNG2.IMF'', ShowLoadingScreen ''LOAD1.MNI'', FadeInScreen,
           PlayMusic ''LEVEL1.IMF'']"
  let ?done = "exampleMode \<lparr>vec_x = 9, vec_y = 5\<rparr> Standing 9 \<lparr>vec_x = 2, vec_y = 5\<rparr> noInputs True
          ([FadeOutScreen, PlayMusic ''MENUSNG2.IMF'', ShowLoadingScreen ''LOAD1.MNI'', FadeInScreen,
            PlayMusic ''LEVEL1.IMF''] @ exampleFrameEvents noInputs (1 / 60))"
  note h7 = example_new
  have "updateAndRender 0 exampleCollaborators (1 / 60) ?new =
      Inr (exampleMode \<lparr>vec_x = 9, vec_y = 5\<rparr> Standing 9 \<lparr>vec_x = 2, vec_y = 5\<rparr> noInputs
             ((5::int) \<le> 5 \<and> (10::int) \<le> int32 (9 + 3) \<and> (9::int) \<le> 10)
             ([FadeOutScreen, PlayMusic ''MENUSNG2.IMF'', ShowLoadingScreen ''LOAD1.MNI'', FadeInScreen,
               PlayMusic ''LEVEL1.IMF''] @ exampleFrameEvents noInputs (1 / 60)))"
    by (rule example_update_alive) simp
  then have h8: "runCalls 0 exampleCollaborators [UpdateAndRender (1 / 60)] ?new = Inr ?done"
    by simp
  have h9: "mLevelFinished ?done" by (simp add: exampleMode_simps)
  let ?init = "exampleMode \<lparr>vec_x = 20, vec_y = 5\<rparr> Dead 0 \<lparr>vec_x = 2, vec_y = 5\<rparr> noInputs False []"
  let ?mid = "exampleMode \<lparr>vec_x = 20, vec_y = 5\<rparr> Dead 0 \<lparr>vec_x = 2, vec_y = 5\<rparr> noInputs False
              (exampleFrameEvents noInputs (1 / 60))"
  let ?fin = "exampleMode \<lparr>vec_x = 2, vec_y = 5\<rparr> Standing 9 \<lparr>vec_x = 2, vec_y = 5\<rparr> noInputs False
              (exampleFrameEvents noInputs (1 / 60) @ [FadeOutScreen]
                 @ exampleFrameEvents noInputs 0 @ [FadeInScreen])"
  have h1: "\<not> mLevelFinished ?init" by (simp add: exampleMode_simps)
  have h2: "renderFrame exampleCollaborators (1 / 60)
       (updateSystems exampleCollaborators (1 / 60) ?init) = Inr ?mid"
    by (simp add: example_frame)
  have h3: "playerEntity ?mid = Some (examplePlayer \<lparr>vec_x = 20, vec_y = 5\<rparr> Dead)"
    by (rule example_playerEntity)
  have h4: "cPlayerControlled (examplePlayer \<lparr>vec_x = 20, vec_y = 5\<rparr> Dead) = Some \<lparr>mState = Dead\<rparr>"
    by (simp add: examplePlayer_def)
  have h5: "mHealth (mPlayerModel (mWorld ?mid)) = 0" by (simp add: exampleMode_simps)
  have "updateAndRender (Suc 0) exampleCollaborators (1 / 60) ?init =
      Inr (exampleMode \<lparr>vec_x = 2, vec_y = 5\<rparr> Standing 9 \<lparr>vec_x = 2, vec_y = 5\<rparr> noInputs
             ((5::int) \<le> 5 \<and> (10::int) \<le> int32 (2 + 3) \<and> (2::int) \<le> 10)
             ([] @ exampleFrameEvents noInputs (1 / 60) @ [FadeOutScreen]
                 @ exampleFrameEvents noInputs 0 @ [FadeInScreen]))"
    by (rule example_update_dead) simp
  then have h6: "updateAndRender (Suc 0) exampleCollaborators (1 / 60) ?init = Inr ?fin"
    by simp
  have d: "mState \<lparr>mState = Dead\<rparr> = Dead \<and> mHealth (mPlayerModel (mWorld ?mid)) \<le> 0"
    using h5 by simp
  from player_death_restarts_level [OF h1 h2 h3 h4, of 0] d
  have "mPlayerModel (mWorld (resetLevel exampleCollaborators ?mid)) =
          mPlayerModelAtLevelStart ?init"
    and "mMap (mWorld (resetLevel exampleCollaborators ?mid)) = mMapAtLevelStart ?init"
    and "(entities (mWorld (resetLevel exampleCollaborators ?mid)),
          mPlayerEntity (resetLevel exampleCollaborators ?mid)) =
         createEntitiesForLevel exampleCollaborators (mInitialActors ?init) []"
    by blast+
  then have r: "mPlayerModel (mWorld (resetLevel exampleCollaborators ?mid)) = \<lparr>mHealth = 9\<rparr>"
    "mMap (mWorld (resetLevel exampleCollaborators ?mid)) = exampleMap"
    "entities (mWorld (resetLevel exampleCollaborators ?mid)) =
       [examplePlayer \<lparr>vec_x = 2, vec_y = 5\<rparr> Standing, exampleExit]"
    by (simp_all add: exampleMode_simps exampleCollaborators_def)
  from player_death_restarts_level [OF h1 h2 h3 h4, of "Suc 0"] h6
  have "\<not> playerDead ?fin" by blast
  then have nd: "playerDead ?fin = False" by simp
  from player_death_restarts_level
    [OF h1 h2 h3 h4,
     where n = 0 and episode = 0
       and levelNumber = 0 and loadLevel = exampleLoadLevel
       and playerModel = "\<lparr>mHealth = 9\<rparr>" and inputs = noInputs
       and scrollOffset = "\<lparr>vec_x = 0, vec_y = 0\<rparr>" and debugging = debugOff
       and systems = "()" and playerPositionOverride = "Some \<lparr>vec_x = 9, vec_y = 5\<rparr>"
       and ?s0.0 = ?new and m = 0 and calls = "[UpdateAndRender (1 / 60)]" and t = ?done]
    h7 h8 h9
  have "\<not> playerDead ?done" by blast
  then have nd2: "playerDead ?done = False" by simp
  have h1': "mLevelFinished ?init = False" using h1 by simp
  show ?thesis using h1' h2 h3 h4 h5 h6 r nd h7 h8 h9 nd2 by blast
qed


section \<open>Further properties of the debugging system\<close>




text \<open>
  Claim C9, amended. When the bounding-box display is on, every entity of the store with
  a \<open>WorldPosition\<close> and a \<open>BoundingBox\<close> has its box drawn in red if it has a
  \<open>PlayerDamaging\<close> component, else in yellow if it has a \<open>SolidBody\<close> component, else in
  green; and every entity with a \<open>WorldPosition\<close> and a \<open>MapGeometryLink\<close> has the linked
  section drawn in cyan.
\<close>

theorem bounding_box_colors:
  assumes "mShowBoundingBoxes d"
  shows "(\<forall>e \<in> set es. \<forall>pos bbox.
            cWorldPosition e = Some pos \<and> cBoundingBox e = Some bbox \<longrightarrow>
            DrawRectangle (entityBoxInPixels X cameraPos pos bbox)
              (if cPlayerDamaging e then Color 255 0 0 255
               else if cSolidBody e then Color 255 255 0 255
               else Color 0 255 0 255)
              \<in> set (DebuggingSystem_update X d cameraPos m es))
         \<and> (\<forall>e \<in> set es. \<forall>pos link.
              cWorldPosition e = Some pos \<and> cMapGeometryLink e = Some link \<longrightarrow>
              DrawRectangle (linkBoxInPixels X cameraPos link) (Color 0 255 255 190)
                \<in> set (DebuggingSystem_update X d cameraPos m es))"
proof (intro conjI ballI allI impI)
  fix e pos bbox
  assume e: "e \<in> set es" and c: "cWorldPosition e = Some pos \<and> cBoundingBox e = Some bbox"
  then have "DrawRectangle (entityBoxInPixels X cameraPos pos bbox) (colorForEntity e)
      \<in> set (entityBoxes X cameraPos es)"
    unfolding entityBoxes_def set_concat set_map by force
  then show "DrawRectangle (entityBoxInPixels X cameraPos pos bbox)
              (if cPlayerDamaging e then Color 255 0 0 255
               else if cSolidBody e then Color 255 255 0 255
               else Color 0 255 0 255)
              \<in> set (DebuggingSystem_update X d cameraPos m es)"
    using assms by (simp add: DebuggingSystem_update_def colorForEntity_def)
next
  fix e pos link
  assume e: "e \<in> set es" and c: "cWorldPosition e = Some pos \<and> cMapGeometryLink e = Some link"
  then have "DrawRectangle (linkBoxInPixels X cameraPos link) (Color 0 255 255 190)
      \<in> set (linkBoxes X cameraPos es)"
    unfolding linkBoxes_def set_concat set_map by force
  then show "DrawRectangle (linkBoxInPixels X cameraPos link) (Color 0 255 255 190)
                \<in> set (DebuggingSystem_update X d cameraPos m es)"
    using assms by (simp add: DebuggingSystem_update_def)
qed

theorem bounding_box_colors_witness:
  "mShowBoundingBoxes (toggleBoundingBoxDisplay debugOff)
   \<and> DrawRectangle
       \<lparr>topLeft = \<lparr>vec_x = 32, vec_y = 16\<rparr>, rectSize = \<lparr>width = 16, height = 24\<rparr>\<rparr>
       (Color 255 0 0 255)
     \<in> set (DebuggingSystem_update exampleExternals (toggleBoundingBoxDisplay debugOff)
              \<lparr>vec_x = 0, vec_y = 0\<rparr> exampleMap
              [examplePlayer \<lparr>vec_x = 9, vec_y = 5\<rparr> Standing, exampleDoor, exampleLinkOnly])
   \<and> DrawRectangle
       \<lparr>topLeft = \<lparr>vec_x = 72, vec_y = 8\<rparr>, rectSize = \<lparr>width = 24, height = 40\<rparr>\<rparr>
       (Color 0 255 0 255)
     \<in> set (DebuggingSystem_update exampleExternals (toggleBoundingBoxDisplay debugOff)
              \<lparr>vec_x = 0, vec_y = 0\<rparr> exampleMap
              [examplePlayer \<lparr>vec_x = 9, vec_y = 5\<rparr> Standing, exampleDoor, exampleLinkOnly])
   \<and> DrawRectangle
       \<lparr>topLeft = \<lparr>vec_x = 32, vec_y = 16\<rparr>, rectSize = \<lparr>width = 16, height = 24\<rparr>\<rparr>
       (Color 0 255 255 190)
     \<in> set (DebuggingSystem_update exampleExternals (toggleBoundingBoxDisplay debugOff)
              \<lparr>vec_x = 0, vec_y = 0\<rparr> exampleMap
              [examplePlayer \<lparr>vec_x = 9, vec_y = 5\<rparr> Standing, exampleDoor, exampleLinkOnly])"
proof -
  let ?es = "[examplePlayer \<lparr>vec_x = 9, vec_y = 5\<rparr> Standing, exampleDoor, exampleLinkOnly]"
  let ?d = "toggleBoundingBoxDisplay debugOff"
  let ?cam = "\<lparr>vec_x = 0, vec_y = 0\<rparr>"
  have h: "mShowBoundingBoxes ?d"
    by (simp add: toggleBoundingBoxDisplay_def debugOff_def)
  note inst = bounding_box_colors [OF h, of ?es exampleExternals ?cam exampleMap]
  have door: "exampleDoor \<in> set ?es"
    and player: "examplePlayer \<lparr>vec_x = 9, vec_y = 5\<rparr> Standing \<in> set ?es"
    by simp_all
  from inst door have "DrawRectangle
      (entityBoxInPixels exampleExternals ?cam \<lparr>vec_x = 4, vec_y = 4\<rparr>
         \<lparr>topLeft = \<lparr>vec_x = 0, vec_y = 0\<rparr>, rectSize = \<lparr>width = 2, height = 3\<rparr>\<rparr>)
      (if cPlayerDamaging exampleDoor then Color 255 0 0 255
       else if cSolidBody exampleDoor then Color 255 255 0 255 else Color 0 255 0 255)
      \<in> set (DebuggingSystem_update exampleExternals ?d ?cam exampleMap ?es)"
    by (auto simp: exampleDoor_def)
  then have a: "DrawRectangle
       \<lparr>topLeft = \<lparr>vec_x = 32, vec_y = 16\<rparr>, rectSize = \<lparr>width = 16, height = 24\<rparr>\<rparr>
       (Color 255 0 0 255)
      \<in> set (DebuggingSystem_update exampleExternals ?d ?cam exampleMap ?es)"
    by (simp add: exampleDoor_def entityBoxInPixels_def exampleExternals_def vector_minus_def
          Let_def)
  from inst player have "DrawRectangle
      (entityBoxInPixels exampleExternals ?cam \<lparr>vec_x = 9, vec_y = 5\<rparr>
         \<lparr>topLeft = \<lparr>vec_x = 0, vec_y = 0\<rparr>, rectSize = \<lparr>width = 3, height = 5\<rparr>\<rparr>)
      (if cPlayerDamaging (examplePlayer \<lparr>vec_x = 9, vec_y = 5\<rparr> Standing) then Color 255 0 0 255
       else if cSolidBody (examplePlayer \<lparr>vec_x = 9, vec_y = 5\<rparr> Standing)
            then Color 255 255 0 255 else Color 0 255 0 255)
      \<in> set (DebuggingSystem_update exampleExternals ?d ?cam exampleMap ?es)"
    by (auto simp: examplePlayer_def)
  then have b: "DrawRectangle
       \<lparr>topLeft = \<lparr>vec_x = 72, vec_y = 8\<rparr>, rectSize = \<lparr>width = 24, height = 40\<rparr>\<rparr>
       (Color 0 255 0 255)
      \<in> set (DebuggingSystem_update exampleExternals ?d ?cam exampleMap ?es)"
    by (simp add: examplePlayer_def entityBoxInPixels_def exampleExternals_def vector_minus_def
          Let_def)
  from inst door have "DrawRectangle
      (linkBoxInPixels exampleExternals ?cam
         \<lparr>mLinkedGeometrySection =
            \<lparr>topLeft = \<lparr>vec_x = 4, vec_y = 2\<rparr>, rectSize = \<lparr>width = 2, height = 3\<rparr>\<rparr>\<rparr>)
      (Color 0 255 255 190)
      \<in> set (DebuggingSystem_update exampleExternals ?d ?cam exampleMap ?es)"
    by (auto simp: exampleDoor_def)
  then have c: "DrawRectangle
       \<lparr>topLeft = \<lparr>vec_x = 32, vec_y = 16\<rparr>, rectSize = \<lparr>width = 16, height = 24\<rparr>\<rparr>
       (Color 0 255 255 190)
      \<in> set (DebuggingSystem_update exampleExternals ?d ?cam exampleMap ?es)"
    by (simp add: linkBoxInPixels_def exampleExternals_def vector_minus_def Let_def)
  from h a b c show ?thesis by blast
qed

text \<open>
  The claim as stated asks for the cyan box of every entity with a \<open>MapGeometryLink\<close>. The
  loop visits the entities that have a \<open>WorldPosition\<close> as well: for an entity with the
  link alone nothing is drawn.
\<close>

theorem bounding_box_link_without_position:
  "mShowBoundingBoxes (toggleBoundingBoxDisplay debugOff)
   \<and> cMapGeometryLink exampleLinkOnly =
       Some \<lparr>mLinkedGeometrySection =
               \<lparr>topLeft = \<lparr>vec_x = 4, vec_y = 2\<rparr>, rectSize = \<lparr>width = 2, height = 3\<rparr>\<rparr>\<rparr>
   \<and> DebuggingSystem_update exampleExternals (toggleBoundingBoxDisplay debugOff)
       \<lparr>vec_x = 0, vec_y = 0\<rparr> exampleMap [exampleLinkOnly] = []"
  by (simp add: toggleBoundingBoxDisplay_def debugOff_def exampleLinkOnly_def
        DebuggingSystem_update_def entityBoxes_def linkBoxes_def)

end
